theory Spec2Isabelle
  imports Complex_Main
begin

section \<open>Ledger store of the Islamic-economy bot (bot.py)\<close>

text \<open>
  The SQLite database of \<^verbatim>\<open>init_database\<close> is a record of tables, each table a list of
  rows in insertion order. Only the columns that the money operations read or write are
  kept; timestamps and the columns \<^verbatim>\<open>last_zakat_payment\<close>, \<^verbatim>\<open>total_charity\<close>,
  \<^verbatim>\<open>is_halal\<close> are left out. A value of a SQLite \<^verbatim>\<open>REAL\<close> column or a Python float is
  the real number it denotes, and every addition, subtraction, multiplication and
  division of such values rounds its result to binary64 (\<open>round_double\<close> below). Dates
  of the form \<^verbatim>\<open>%Y-%m-%d\<close>, which the code compares as strings, are day numbers.
\<close>

record user =
  user_id :: string
  username :: string
  gold_dinars :: real
  silver_dirhams :: real

record transaction_row =
  tx_user_id :: string
  transaction_type :: string
  tx_amount :: real
  tx_currency :: string
  tx_description :: string
  partner_id :: "string option"

record loan_application =
  app_id :: int
  app_borrower_id :: string
  borrower_name :: string
  app_loan_amount :: real
  app_currency :: string
  repayment_days :: int
  app_due_date :: int
  purpose :: string
  app_status :: string
  funded_by :: "string option"

record loan =
  loan_id :: int
  lender_id :: string
  borrower_id :: string
  loan_amount :: real
  loan_currency :: string
  due_date :: int
  repaid_amount :: real
  loan_status :: string

record business =
  business_id :: int
  biz_user_id :: string
  business_name :: string
  business_type :: string
  biz_status :: string
  license_code :: "string option"

record investment =
  inv_user_id :: string
  inv_status :: string

record listing =
  seller_id :: string
  item_name :: string

record bank_account =
  account_id :: int
  account_number :: string
  institution_business_id :: int
  owner_user_id :: string
  account_type :: string
  acct_currency :: string
  balance :: real
  profit_share_ratio :: "real option"
  acct_status :: string

record bank_ledger_row =
  bl_account_id :: int
  entry_type :: string
  bl_amount :: real
  bl_currency :: string
  bl_description :: string
  counterparty_account_id :: "int option"
  created_by_user_id :: string

record permission =
  perm_account_id :: int
  perm_user_id :: string
  role :: string

record db =
  users :: "user list"
  transactions :: "transaction_row list"
  loan_applications :: "loan_application list"
  loans :: "loan list"
  businesses :: "business list"
  investments :: "investment list"
  marketplace :: "listing list"
  bank_accounts :: "bank_account list"
  bank_ledger :: "bank_ledger_row list"
  bank_account_permissions :: "permission list"

subsection \<open>Columns of the users table\<close>

text \<open>
  The handlers build SQL as \<^verbatim>\<open>f'UPDATE users SET {currency} = {currency} + ? ...'\<close>.
  SQLite resolves the identifier without regard to ASCII case; an identifier that names
  no column makes the statement fail. Python's \<^verbatim>\<open>==\<close> on the same string is exact.
  The currency strings that reach these statements come from \<^verbatim>\<open>/api/pay\<close>, which admits
  the two column names only, and from \<^verbatim>\<open>apply_for_loan\<close>, which admits them in any
  letter case; every other string is taken to name no column.
\<close>

datatype balance_column = Gold | Silver

definition lower_char :: "char \<Rightarrow> char" where
  "lower_char c =
     (case map_of (zip ''ABCDEFGHIJKLMNOPQRSTUVWXYZ'' ''abcdefghijklmnopqrstuvwxyz'') c of
        Some l \<Rightarrow> l | None \<Rightarrow> c)"

definition lower :: "string \<Rightarrow> string" where
  "lower s = map lower_char s"

definition users_column :: "string \<Rightarrow> balance_column option" where
  "users_column c =
     (if lower c = ''gold_dinars'' then Some Gold
      else if lower c = ''silver_dirhams'' then Some Silver
      else None)"

fun get_col :: "balance_column \<Rightarrow> user \<Rightarrow> real" where
  "get_col Gold u = gold_dinars u"
| "get_col Silver u = silver_dirhams u"

fun set_col :: "balance_column \<Rightarrow> real \<Rightarrow> user \<Rightarrow> user" where
  "set_col Gold v u = u\<lparr>gold_dinars := v\<rparr>"
| "set_col Silver v u = u\<lparr>silver_dirhams := v\<rparr>"

text \<open>\<^verbatim>\<open>UPDATE users SET ... WHERE ...\<close>: the new rows and \<^verbatim>\<open>cursor.rowcount\<close>.\<close>

definition update_where :: "('a \<Rightarrow> bool) \<Rightarrow> ('a \<Rightarrow> 'a) \<Rightarrow> 'a list \<Rightarrow> 'a list" where
  "update_where P f rows = map (\<lambda>r. if P r then f r else r) rows"

definition rowcount :: "('a \<Rightarrow> bool) \<Rightarrow> 'a list \<Rightarrow> nat" where
  "rowcount P rows = length (filter P rows)"

text \<open>\<^verbatim>\<open>SELECT ... FROM users WHERE user_id = ?\<close> followed by \<^verbatim>\<open>fetchone()\<close>.\<close>

definition fetch_user :: "db \<Rightarrow> string \<Rightarrow> user option" where
  "fetch_user d uid = find (\<lambda>u. user_id u = uid) (users d)"

definition wallet :: "db \<Rightarrow> string \<Rightarrow> balance_column \<Rightarrow> real option" where
  "wallet d uid k = map_option (get_col k) (fetch_user d uid)"

definition total_balance :: "db \<Rightarrow> balance_column \<Rightarrow> real" where
  "total_balance d k = sum_list (map (get_col k) (users d))"

text \<open>
  \<^verbatim>\<open>INSERT INTO transactions\<close> on a connection with \<^verbatim>\<open>PRAGMA foreign_keys = ON\<close>:
  \<^verbatim>\<open>user_id\<close> references \<^verbatim>\<open>users\<close>; a missing parent raises IntegrityError.
\<close>

definition insert_transaction :: "transaction_row \<Rightarrow> db \<Rightarrow> db option" where
  "insert_transaction t d =
     (if tx_user_id t \<in> set (map user_id (users d))
      then Some (d\<lparr>transactions := transactions d @ [t]\<rparr>)
      else None)"

subsection \<open>Arithmetic of Python floats and SQLite REAL values\<close>

text \<open>
  Both are IEEE 754 binary64 numbers: 53 significant bits, and every operation returns
  the representable number nearest to the exact result, a tie going to the even
  significand. \<open>binade x\<close> is the exponent of the leading bit of \<open>x\<close>, and \<open>ulp x\<close>, the
  unit in the last place, is the distance between neighbouring doubles around \<open>x\<close>. The
  exponent is unbounded here: overflow to infinity (magnitudes from \<open>2 ^ 1024\<close>) and NaN are
  not modelled. Below \<open>2 powr - 1022\<close>, where binary64 keeps fewer bits, sums and
  differences of doubles are exact in binary64 and here; a product or quotient that
  small is rounded to 53 bits here and more coarsely by binary64.
\<close>

definition round_half_even :: "real \<Rightarrow> int" where
  "round_half_even y =
     (let n = \<lfloor>y\<rfloor> in
      if y - of_int n < 1 / 2 then n
      else if 1 / 2 < y - of_int n then n + 1
      else if even n then n else n + 1)"

definition binade :: "real \<Rightarrow> int" where
  "binade x = \<lfloor>log 2 \<bar>x\<bar>\<rfloor>"

definition ulp :: "real \<Rightarrow> real" where
  "ulp x = 2 powr of_int (binade x - 52)"

definition round_double :: "real \<Rightarrow> real" where
  "round_double x =
     (if x = 0 then 0 else of_int (round_half_even (x / ulp x)) * ulp x)"

subsection \<open>Input validation of the HTTP front end\<close>

definition verify_api_token :: "string \<Rightarrow> string \<Rightarrow> bool" where
  "verify_api_token API_TOKEN token = (token = API_TOKEN)"

definition isdigit :: "string \<Rightarrow> bool" where
  "isdigit s = (s \<noteq> [] \<and> list_all (\<lambda>c. c \<in> set ''0123456789'') s)"

text \<open>A JSON field that is absent or not a string is \<open>None\<close>.\<close>

definition validate_user_id :: "string option \<Rightarrow> bool" where
  "validate_user_id x =
     (case x of None \<Rightarrow> False
      | Some uid \<Rightarrow> uid \<noteq> [] \<and> isdigit uid \<and> 17 \<le> length uid \<and> length uid \<le> 19)"

text \<open>
  The \<^verbatim>\<open>amount\<close> field of the body: absent (the handler's default \<^verbatim>\<open>0\<close> applies), a value
  that \<^verbatim>\<open>float()\<close> rejects, or a number as it is written in the body, of which
  \<^verbatim>\<open>float()\<close> is the nearest double. The literals \<^verbatim>\<open>0.01\<close> and \<^verbatim>\<open>999999.99\<close> of
  \<^verbatim>\<open>validate_amount\<close> are doubles as well.
\<close>

datatype json_amount = Missing | Not_A_Number | Number real

fun to_float :: "json_amount \<Rightarrow> real option" where
  "to_float Missing = Some 0"
| "to_float Not_A_Number = None"
| "to_float (Number r) = Some (round_double r)"

definition validate_amount :: "json_amount \<Rightarrow> bool" where
  "validate_amount a =
     (case to_float a of None \<Rightarrow> False
      | Some amount_float \<Rightarrow>
          round_double (1 / 100) \<le> amount_float \<and> amount_float \<le> round_double (99999999 / 100))"

subsection \<open>POST /api/pay: transfer_money\<close>

record pay_body =
  from_user :: "string option"
  to_user :: "string option"
  amount :: json_amount
  currency :: "string option"

record pay_request =
  auth_token :: string
  json :: "pay_body option"

datatype pay_response =
    Unauthorized
  | No_JSON_Data
  | Invalid_User_ID
  | Invalid_Amount
  | Invalid_Currency
  | Cannot_Transfer_To_Yourself
  | Insufficient_Funds_Or_User_Not_Found
  | Recipient_Not_Found
  | Server_Error
  | Transferred real string

definition body_currency :: "pay_body \<Rightarrow> string" where
  "body_currency data = (case currency data of None \<Rightarrow> ''gold_dinars'' | Some c \<Rightarrow> c)"

definition send_row :: "string \<Rightarrow> string \<Rightarrow> real \<Rightarrow> string \<Rightarrow> transaction_row" where
  "send_row a b amt c =
     \<lparr>tx_user_id = a, transaction_type = ''transfer_send'', tx_amount = amt, tx_currency = c,
      tx_description = ''Minecraft transfer'', partner_id = Some b\<rparr>"

definition receive_row :: "string \<Rightarrow> string \<Rightarrow> real \<Rightarrow> string \<Rightarrow> transaction_row" where
  "receive_row a b amt c =
     \<lparr>tx_user_id = b, transaction_type = ''transfer_receive'', tx_amount = amt, tx_currency = c,
      tx_description = ''Minecraft transfer'', partner_id = Some a\<rparr>"

text \<open>
  The body of the \<^verbatim>\<open>try\<close> block, between \<^verbatim>\<open>BEGIN IMMEDIATE\<close> and \<^verbatim>\<open>commit\<close>. A
  \<^verbatim>\<open>rollback\<close>, and an exception (the connection is dropped uncommitted), both leave the
  database as it was.
\<close>

definition pay_transaction :: "string \<Rightarrow> string \<Rightarrow> real \<Rightarrow> string \<Rightarrow> db \<Rightarrow> pay_response \<times> db" where
  "pay_transaction a b amt c d =
     (case users_column c of
        None \<Rightarrow> (Server_Error, d)
      | Some k \<Rightarrow>
          let debit = (\<lambda>u. user_id u = a \<and> get_col k u \<ge> amt);
              d1 = d\<lparr>users := update_where debit
                               (\<lambda>u. set_col k (round_double (get_col k u - amt)) u) (users d)\<rparr>
          in if rowcount debit (users d) = 0 then (Insufficient_Funds_Or_User_Not_Found, d)
             else
               let credit = (\<lambda>u. user_id u = b);
                   d2 = d1\<lparr>users := update_where credit
                                   (\<lambda>u. set_col k (round_double (get_col k u + amt)) u) (users d1)\<rparr>
               in if rowcount credit (users d1) = 0 then (Recipient_Not_Found, d)
                  else
                    (case insert_transaction (send_row a b amt c) d2 of
                       None \<Rightarrow> (Server_Error, d)
                     | Some d3 \<Rightarrow>
                         (case insert_transaction (receive_row a b amt c) d3 of
                            None \<Rightarrow> (Server_Error, d)
                          | Some d4 \<Rightarrow> (Transferred amt c, d4))))"

definition transfer_money :: "string \<Rightarrow> pay_request \<Rightarrow> db \<Rightarrow> pay_response \<times> db" where
  "transfer_money API_TOKEN request d =
     (if \<not> verify_api_token API_TOKEN (auth_token request) then (Unauthorized, d)
      else case json request of
        None \<Rightarrow> (No_JSON_Data, d)
      | Some data \<Rightarrow>
          if \<not> validate_user_id (from_user data) \<or> \<not> validate_user_id (to_user data)
          then (Invalid_User_ID, d)
          else if \<not> validate_amount (amount data) then (Invalid_Amount, d)
          else if body_currency data \<notin> set [''gold_dinars'', ''silver_dirhams'']
          then (Invalid_Currency, d)
          else if from_user data = to_user data then (Cannot_Transfer_To_Yourself, d)
          else pay_transaction (the (from_user data)) (the (to_user data))
                 (the (to_float (amount data))) (body_currency data) d)"

subsection \<open>get_user_account\<close>

definition sanitize_username :: "string \<Rightarrow> string" where
  "sanitize_username name =
     (if name = [] then ''Unknown User''
      else take 50 (filter (\<lambda>c. c \<notin> set [CHR ''<'', CHR ''>'', CHR 0x22, CHR 0x27, CHR '';'',
                                              CHR ''&'', CHR 0x5C]) name))"

text \<open>
  Get or create: the function opens its own connection and commits the new row at once,
  so the row stays even when the caller's transaction is rolled back later. The result
  is the returned dictionary and the database.
\<close>

definition get_user_account :: "string \<Rightarrow> string \<Rightarrow> db \<Rightarrow> user \<times> db" where
  "get_user_account uid name d =
     (if \<not> validate_user_id (Some uid)
      then (\<lparr>user_id = uid, username = ''Invalid User'', gold_dinars = 0, silver_dirhams = 0\<rparr>, d)
      else case fetch_user d uid of
        Some u \<Rightarrow> (u, d)
      | None \<Rightarrow>
          let u = \<lparr>user_id = uid, username = sanitize_username name,
                   gold_dinars = 100, silver_dirhams = 500\<rparr>
          in (u, d\<lparr>users := users d @ [u]\<rparr>))"

definition user_exists :: "db \<Rightarrow> string \<Rightarrow> bool" where
  "user_exists d uid = (uid \<in> set (map user_id (users d)))"

text \<open>\<^verbatim>\<open>INTEGER PRIMARY KEY AUTOINCREMENT\<close> on a table from which rows are never deleted.\<close>

definition next_id :: "int list \<Rightarrow> int" where
  "next_id ids = fold max ids 0 + 1"

text \<open>Python's \<^verbatim>\<open>str\<close> on an integer, for the f-strings of the descriptions.\<close>

fun str_nat :: "nat \<Rightarrow> string" where
  "str_nat n =
     (if n < 10 then [''0123456789'' ! n]
      else str_nat (n div 10) @ [''0123456789'' ! (n mod 10)])"

definition str_int :: "int \<Rightarrow> string" where
  "str_int i = (if i < 0 then ''-'' @ str_nat (nat (- i)) else str_nat (nat i))"

text \<open>
  \<^verbatim>\<open>user_data['gold_dinars'] if currency == 'gold_dinars' else user_data['silver_dirhams']\<close>
  and the matching \<^verbatim>\<open>UPDATE users SET gold_dinars = ? WHERE user_id = ?\<close> or its silver
  twin: the column is chosen by Python's exact string comparison.
\<close>

definition py_balance :: "string \<Rightarrow> user \<Rightarrow> real" where
  "py_balance c user_data = (if c = ''gold_dinars'' then gold_dinars user_data else silver_dirhams user_data)"

definition py_set_balance :: "string \<Rightarrow> string \<Rightarrow> real \<Rightarrow> db \<Rightarrow> db" where
  "py_set_balance c uid v d =
     (if c = ''gold_dinars''
      then d\<lparr>users := update_where (\<lambda>u. user_id u = uid) (\<lambda>u. u\<lparr>gold_dinars := v\<rparr>) (users d)\<rparr>
      else d\<lparr>users := update_where (\<lambda>u. user_id u = uid) (\<lambda>u. u\<lparr>silver_dirhams := v\<rparr>) (users d)\<rparr>)"

text \<open>\<^verbatim>\<open>f'UPDATE users SET {currency} = {currency} + ? WHERE user_id = ?'\<close>\<close>

definition sql_add_balance :: "string \<Rightarrow> string \<Rightarrow> real \<Rightarrow> db \<Rightarrow> db option" where
  "sql_add_balance c uid v d =
     (case users_column c of
        None \<Rightarrow> None
      | Some k \<Rightarrow>
          Some (d\<lparr>users := update_where (\<lambda>u. user_id u = uid)
                              (\<lambda>u. set_col k (round_double (get_col k u + v)) u) (users d)\<rparr>))"

subsection \<open>Loans: apply_for_loan, fund_loan, repay_loan\<close>

datatype apply_reply =
    Currency_Must_Be_Gold_Or_Silver
  | Amount_And_Days_Must_Be_Positive
  | Maximum_Term_Is_365_Days
  | Purpose_Too_Short
  | Three_Pending_Applications
  | Error_Submitting_Application
  | Application_Submitted int

text \<open>\<open>today\<close> is the day of \<^verbatim>\<open>datetime.datetime.now()\<close>.\<close>

definition apply_for_loan ::
  "int \<Rightarrow> string \<Rightarrow> string \<Rightarrow> real \<Rightarrow> string \<Rightarrow> int \<Rightarrow> string \<Rightarrow> db \<Rightarrow> apply_reply \<times> db" where
  "apply_for_loan today caller caller_name amt c days why d =
     (if lower c \<notin> set [''gold_dinars'', ''silver_dirhams''] then (Currency_Must_Be_Gold_Or_Silver, d)
      else if amt \<le> 0 \<or> days \<le> 0 then (Amount_And_Days_Must_Be_Positive, d)
      else if days > 365 then (Maximum_Term_Is_365_Days, d)
      else if why = [] \<or> length why < 10 then (Purpose_Too_Short, d)
      else
        let pending_count = length (filter (\<lambda>a. app_borrower_id a = caller \<and> app_status a = ''pending'')
                                      (loan_applications d))
        in if pending_count \<ge> 3 then (Three_Pending_Applications, d)
           else if \<not> user_exists d caller then (Error_Submitting_Application, d)
           else
             let application_id = next_id (map app_id (loan_applications d))
             in (Application_Submitted application_id,
                 d\<lparr>loan_applications := loan_applications d @
                      [\<lparr>app_id = application_id, app_borrower_id = caller,
                        borrower_name = caller_name, app_loan_amount = amt, app_currency = c,
                        repayment_days = days, app_due_date = today + days, purpose = why,
                        app_status = ''pending'', funded_by = None\<rparr>]\<rparr>))"

datatype fund_reply =
    Application_Not_Found_Or_Already_Funded
  | Cannot_Fund_Own_Application
  | Lender_Insufficient_Funds
  | Error_Funding_Loan
  | Loan_Funded int

text \<open>
  The statements between \<^verbatim>\<open>BEGIN IMMEDIATE\<close> and \<^verbatim>\<open>COMMIT\<close>; \<open>None\<close> is an exception
  (unknown column, foreign key), after which nothing of the transaction is committed.
\<close>

definition fund_loan_transaction ::
  "string \<Rightarrow> string \<Rightarrow> int \<Rightarrow> loan_application \<Rightarrow> user \<Rightarrow> db \<Rightarrow> (int \<times> db) option" where
  "fund_loan_transaction lender lender_name application_id app user_data d =
     (let borrower = app_borrower_id app; amt = app_loan_amount app; c = app_currency app;
          d1 = py_set_balance c lender (round_double (py_balance c user_data - amt)) d
      in case sql_add_balance c borrower amt d1 of
           None \<Rightarrow> None
         | Some d2 \<Rightarrow>
             if \<not> (user_exists d2 lender \<and> user_exists d2 borrower) then None
             else
               let new_id = next_id (map loan_id (loans d2));
                   d3 = d2\<lparr>loans := loans d2 @
                          [\<lparr>loan_id = new_id, lender_id = lender, borrower_id = borrower,
                            loan_amount = amt, loan_currency = c, due_date = app_due_date app,
                            repaid_amount = 0, loan_status = ''active''\<rparr>]\<rparr>;
                   d4 = d3\<lparr>loan_applications :=
                          update_where (\<lambda>a. app_id a = application_id)
                            (\<lambda>a. a\<lparr>app_status := ''funded'', funded_by := Some lender\<rparr>)
                            (loan_applications d3)\<rparr>
               in case insert_transaction
                         \<lparr>tx_user_id = lender, transaction_type = ''loan_given'', tx_amount = amt,
                          tx_currency = c,
                          tx_description = ''Funded loan application #'' @ str_int application_id @
                                           '' for '' @ borrower_name app,
                          partner_id = Some borrower\<rparr> d4 of
                    None \<Rightarrow> None
                  | Some d5 \<Rightarrow>
                      (case insert_transaction
                              \<lparr>tx_user_id = borrower, transaction_type = ''loan_received'',
                               tx_amount = amt, tx_currency = c,
                               tx_description = ''Received loan funding from '' @ lender_name,
                               partner_id = Some lender\<rparr> d5 of
                         None \<Rightarrow> None
                       | Some d6 \<Rightarrow> Some (new_id, d6)))"

definition fund_loan :: "string \<Rightarrow> string \<Rightarrow> int \<Rightarrow> db \<Rightarrow> fund_reply \<times> db" where
  "fund_loan lender lender_name application_id d =
     (case find (\<lambda>a. app_id a = application_id \<and> app_status a = ''pending'') (loan_applications d) of
        None \<Rightarrow> (Application_Not_Found_Or_Already_Funded, d)
      | Some app \<Rightarrow>
          if app_borrower_id app = lender then (Cannot_Fund_Own_Application, d)
          else
            let (user_data, d0) = get_user_account lender lender_name d;
                currency_balance = py_balance (app_currency app) user_data
            in if currency_balance < app_loan_amount app then (Lender_Insufficient_Funds, d0)
               else
                 (case fund_loan_transaction lender lender_name application_id app user_data d0 of
                    None \<Rightarrow> (Error_Funding_Loan, d0)
                  | Some (new_id, d') \<Rightarrow> (Loan_Funded new_id, d')))"

datatype repay_reply =
    Loan_Not_Found_Or_Not_Borrower
  | Loan_Not_Active
  | Exceeds_Remaining_Balance
  | Repayment_Must_Be_Positive
  | Borrower_Insufficient_Funds
  | Error_Processing_Repayment
  | Repayment_Processed string

definition repay_loan_transaction ::
  "string \<Rightarrow> int \<Rightarrow> real \<Rightarrow> loan \<Rightarrow> user \<Rightarrow> db \<Rightarrow> (string \<times> db) option" where
  "repay_loan_transaction caller lid repayment_amount l user_data d =
     (let c = loan_currency l;
          d1 = py_set_balance c caller (round_double (py_balance c user_data - repayment_amount)) d
      in case sql_add_balance c (lender_id l) repayment_amount d1 of
           None \<Rightarrow> None
         | Some d2 \<Rightarrow>
             let new_repaid_amount = round_double (repaid_amount l + repayment_amount);
                 new_status = (if new_repaid_amount \<ge> loan_amount l then ''completed'' else ''active'');
                 d3 = d2\<lparr>loans := update_where (\<lambda>r. loan_id r = lid)
                                     (\<lambda>r. r\<lparr>repaid_amount := new_repaid_amount, loan_status := new_status\<rparr>)
                                     (loans d2)\<rparr>
             in case insert_transaction
                       \<lparr>tx_user_id = caller, transaction_type = ''loan_repayment'',
                        tx_amount = repayment_amount, tx_currency = c,
                        tx_description = ''Loan repayment (ID: '' @ str_int lid @ '')'',
                        partner_id = Some (lender_id l)\<rparr> d3 of
                  None \<Rightarrow> None
                | Some d4 \<Rightarrow>
                    (case insert_transaction
                            \<lparr>tx_user_id = lender_id l, transaction_type = ''loan_repayment_received'',
                             tx_amount = repayment_amount, tx_currency = c,
                             tx_description = ''Loan repayment received (ID: '' @ str_int lid @ '')'',
                             partner_id = Some caller\<rparr> d4 of
                       None \<Rightarrow> None
                     | Some d5 \<Rightarrow> Some (new_status, d5)))"

definition repay_loan :: "string \<Rightarrow> string \<Rightarrow> int \<Rightarrow> real \<Rightarrow> db \<Rightarrow> repay_reply \<times> db" where
  "repay_loan caller caller_name lid repayment_amount d =
     (case find (\<lambda>l. loan_id l = lid \<and> borrower_id l = caller) (loans d) of
        None \<Rightarrow> (Loan_Not_Found_Or_Not_Borrower, d)
      | Some l \<Rightarrow>
          if loan_status l \<noteq> ''active'' then (Loan_Not_Active, d)
          else
            let remaining_amount = round_double (loan_amount l - repaid_amount l)
            in if repayment_amount > remaining_amount then (Exceeds_Remaining_Balance, d)
               else if repayment_amount \<le> 0 then (Repayment_Must_Be_Positive, d)
               else
                 let (user_data, d0) = get_user_account caller caller_name d;
                     currency_balance = py_balance (loan_currency l) user_data
                 in if currency_balance < repayment_amount then (Borrower_Insufficient_Funds, d0)
                    else
                      (case repay_loan_transaction caller lid repayment_amount l user_data d0 of
                         None \<Rightarrow> (Error_Processing_Repayment, d0)
                       | Some (new_status, d') \<Rightarrow> (Repayment_Processed new_status, d')))"

subsection \<open>Bank accounts\<close>

text \<open>
  The \<^verbatim>\<open>CHECK\<close> constraints of \<^verbatim>\<open>bank_accounts\<close>, \<^verbatim>\<open>bank_ledger\<close> and
  \<^verbatim>\<open>bank_account_permissions\<close> are enforced on every connection; foreign keys only
  where the function has run \<^verbatim>\<open>PRAGMA foreign_keys = ON\<close> (\<open>fk\<close>). \<open>None\<close> is the
  IntegrityError.
\<close>

definition account_exists :: "db \<Rightarrow> int \<Rightarrow> bool" where
  "account_exists d aid = (aid \<in> set (map account_id (bank_accounts d)))"

definition insert_bank_account :: "bool \<Rightarrow> bank_account \<Rightarrow> db \<Rightarrow> db option" where
  "insert_bank_account fk row d =
     (if account_type row \<in> set [''wadiah'', ''mudarabah''] \<and>
         acct_currency row \<in> set [''gold_dinars'', ''silver_dirhams''] \<and>
         balance row \<ge> 0 \<and>
         (case profit_share_ratio row of None \<Rightarrow> True | Some r \<Rightarrow> 0 \<le> r \<and> r \<le> 1) \<and>
         acct_status row \<in> set [''active'', ''closed''] \<and>
         account_number row \<notin> set (map account_number (bank_accounts d)) \<and>
         account_id row \<notin> set (map account_id (bank_accounts d)) \<and>
         (fk \<longrightarrow> institution_business_id row \<in> set (map business_id (businesses d)) \<and>
                 user_exists d (owner_user_id row))
      then Some (d\<lparr>bank_accounts := bank_accounts d @ [row]\<rparr>)
      else None)"

definition insert_permission :: "bool \<Rightarrow> permission \<Rightarrow> db \<Rightarrow> db option" where
  "insert_permission fk row d =
     (if role row \<in> set [''owner'', ''joint_owner'', ''manager'', ''viewer''] \<and>
         (perm_account_id row, perm_user_id row) \<notin>
            set (map (\<lambda>p. (perm_account_id p, perm_user_id p)) (bank_account_permissions d)) \<and>
         (fk \<longrightarrow> account_exists d (perm_account_id row) \<and> user_exists d (perm_user_id row))
      then Some (d\<lparr>bank_account_permissions := bank_account_permissions d @ [row]\<rparr>)
      else None)"

definition insert_bank_ledger :: "bool \<Rightarrow> bank_ledger_row \<Rightarrow> db \<Rightarrow> db option" where
  "insert_bank_ledger fk row d =
     (if entry_type row \<in> set [''deposit'', ''withdrawal'', ''transfer_in'', ''transfer_out'',
                                ''profit_share'', ''service_fee''] \<and>
         bl_amount row > 0 \<and>
         bl_currency row \<in> set [''gold_dinars'', ''silver_dirhams''] \<and>
         (fk \<longrightarrow> account_exists d (bl_account_id row) \<and>
                 (case counterparty_account_id row of None \<Rightarrow> True | Some c \<Rightarrow> account_exists d c) \<and>
                 user_exists d (created_by_user_id row))
      then Some (d\<lparr>bank_ledger := bank_ledger d @ [row]\<rparr>)
      else None)"

text \<open>\<^verbatim>\<open>UPDATE bank_accounts SET balance = ? WHERE id = ?\<close> under \<^verbatim>\<open>CHECK (balance >= 0)\<close>.\<close>

definition update_bank_balance :: "int \<Rightarrow> real \<Rightarrow> db \<Rightarrow> db option" where
  "update_bank_balance aid v d =
     (if v < 0 \<and> rowcount (\<lambda>r. account_id r = aid) (bank_accounts d) \<noteq> 0 then None
      else Some (d\<lparr>bank_accounts := update_where (\<lambda>r. account_id r = aid) (\<lambda>r. r\<lparr>balance := v\<rparr>)
                                        (bank_accounts d)\<rparr>))"

definition get_user_account_count :: "string \<Rightarrow> int \<Rightarrow> db \<Rightarrow> nat" where
  "get_user_account_count uid institution_id d =
     length (filter (\<lambda>r. owner_user_id r = uid \<and> institution_business_id r = institution_id \<and>
                          acct_status r = ''active'') (bank_accounts d))"

text \<open>
  \<^verbatim>\<open>generate_unique_account_number\<close> draws up to 50 random numbers and returns the first
  one not yet in the table; \<open>draws\<close> are the numbers drawn. \<open>None\<close> is the exception after 50
  failures.
\<close>

definition generate_unique_account_number :: "string list \<Rightarrow> db \<Rightarrow> string option" where
  "generate_unique_account_number draws d =
     find (\<lambda>n. n \<notin> set (map account_number (bank_accounts d))) (take 50 draws)"

datatype open_reply =
    Invalid_Account_Type
  | Invalid_Account_Currency
  | Mudarabah_Requires_Ratio
  | Wadiah_Cannot_Have_Profit_Sharing
  | Maximum_Accounts_Reached
  | Institution_Not_Found
  | Database_Error_During_Creation
  | Account_Opened int string

text \<open>
  The three \<^verbatim>\<open>INSERT\<close> statements of \<^verbatim>\<open>create_bank_account\<close>, on a connection that never
  enabled foreign keys. The last one logs the opening with amount \<^verbatim>\<open>0\<close>.
\<close>

definition create_bank_account_inserts ::
  "string \<Rightarrow> int \<Rightarrow> string \<Rightarrow> string \<Rightarrow> real option \<Rightarrow> string \<Rightarrow> string \<Rightarrow> db \<Rightarrow> (int \<times> db) option" where
  "create_bank_account_inserts owner institution_id atype c ratio created_by number d =
     (let new_id = next_id (map account_id (bank_accounts d))
      in case insert_bank_account False
                \<lparr>account_id = new_id, account_number = number,
                 institution_business_id = institution_id, owner_user_id = owner,
                 account_type = atype, acct_currency = c, balance = 0,
                 profit_share_ratio = ratio, acct_status = ''active''\<rparr> d of
           None \<Rightarrow> None
         | Some d1 \<Rightarrow>
             (case insert_permission False
                     \<lparr>perm_account_id = new_id, perm_user_id = owner, role = ''owner''\<rparr> d1 of
                None \<Rightarrow> None
              | Some d2 \<Rightarrow>
                  (case insert_bank_ledger False
                          \<lparr>bl_account_id = new_id, entry_type = ''deposit'', bl_amount = 0,
                           bl_currency = c, bl_description = ''Account opened'',
                           counterparty_account_id = None, created_by_user_id = created_by\<rparr> d2 of
                     None \<Rightarrow> None
                   | Some d3 \<Rightarrow> Some (new_id, d3))))"

definition create_bank_account ::
  "string list \<Rightarrow> string \<Rightarrow> int \<Rightarrow> string \<Rightarrow> string \<Rightarrow> real option \<Rightarrow> string option \<Rightarrow> db
     \<Rightarrow> open_reply \<times> db" where
  "create_bank_account draws owner institution_id atype c ratio created_by_user d =
     (if atype \<notin> set [''wadiah'', ''mudarabah''] then (Invalid_Account_Type, d)
      else if c \<notin> set [''gold_dinars'', ''silver_dirhams''] then (Invalid_Account_Currency, d)
      else if atype = ''mudarabah'' \<and>
              (case ratio of None \<Rightarrow> True | Some r \<Rightarrow> r < 0 \<or> r > 1)
      then (Mudarabah_Requires_Ratio, d)
      else if atype \<noteq> ''mudarabah'' \<and> ratio \<noteq> None then (Wadiah_Cannot_Have_Profit_Sharing, d)
      else if get_user_account_count owner institution_id d \<ge> 5 then (Maximum_Accounts_Reached, d)
      else
        (case find (\<lambda>b. business_id b = institution_id \<and> business_type b = ''islamic_finance'' \<and>
                         biz_status b = ''active'' \<and> license_code b \<noteq> None) (businesses d) of
           None \<Rightarrow> (Institution_Not_Found, d)
         | Some institution \<Rightarrow>
             (case generate_unique_account_number draws d of
                None \<Rightarrow> (Database_Error_During_Creation, d)
              | Some number \<Rightarrow>
                  let created_by = (case created_by_user of
                                      None \<Rightarrow> owner
                                    | Some u \<Rightarrow> if u = [] then owner else u)
                  in (case create_bank_account_inserts owner institution_id atype c ratio
                              created_by number d of
                        None \<Rightarrow> (Database_Error_During_Creation, d)
                      | Some (new_id, d') \<Rightarrow> (Account_Opened new_id number, d')))))"

datatype bank_reply =
    Amount_Must_Be_Positive
  | Same_Account
  | Account_Not_Found_Or_Inactive
  | Account_Configuration_Error
  | Different_Currencies
  | No_Permission
  | Insufficient_Balance
  | Database_Error
  | Bank_Success real real

text \<open>
  \<^verbatim>\<open>SELECT ... FROM bank_accounts ba JOIN businesses b ON ba.institution_business_id = b.id
  WHERE ba.id = ? AND ba.status = 'active'\<close>
\<close>

definition active_account :: "db \<Rightarrow> int \<Rightarrow> bank_account option" where
  "active_account d aid =
     find (\<lambda>r. account_id r = aid \<and> acct_status r = ''active'' \<and>
                list_ex (\<lambda>b. business_id b = institution_business_id r) (businesses d))
          (bank_accounts d)"

definition may_operate :: "db \<Rightarrow> bank_account \<Rightarrow> int \<Rightarrow> string \<Rightarrow> bool" where
  "may_operate d account aid uid =
     (owner_user_id account = uid \<or>
      list_ex (\<lambda>p. perm_account_id p = aid \<and> perm_user_id p = uid \<and>
                   role p \<in> set [''owner'', ''joint_owner'', ''manager''])
              (bank_account_permissions d))"

definition bank_deposit_transaction ::
  "int \<Rightarrow> string \<Rightarrow> real \<Rightarrow> bank_account \<Rightarrow> user \<Rightarrow> db \<Rightarrow> db option" where
  "bank_deposit_transaction aid uid amt account user_data d =
     (let c = acct_currency account;
          d1 = py_set_balance c uid (round_double (py_balance c user_data - amt)) d
      in case update_bank_balance aid (round_double (balance account + amt)) d1 of
           None \<Rightarrow> None
         | Some d2 \<Rightarrow>
             (case insert_bank_ledger True
                     \<lparr>bl_account_id = aid, entry_type = ''deposit'', bl_amount = amt, bl_currency = c,
                      bl_description = ''Deposit from wallet'', counterparty_account_id = None,
                      created_by_user_id = uid\<rparr> d2 of
                None \<Rightarrow> None
              | Some d3 \<Rightarrow>
                  insert_transaction
                    \<lparr>tx_user_id = uid, transaction_type = ''bank_deposit'', tx_amount = amt,
                     tx_currency = c,
                     tx_description = ''Deposit to bank account '' @ account_number account,
                     partner_id = None\<rparr> d3))"

definition bank_deposit :: "int \<Rightarrow> string \<Rightarrow> real \<Rightarrow> db \<Rightarrow> bank_reply \<times> db" where
  "bank_deposit aid uid amt d =
     (if amt \<le> 0 then (Amount_Must_Be_Positive, d)
      else case active_account d aid of
        None \<Rightarrow> (Account_Not_Found_Or_Inactive, d)
      | Some account \<Rightarrow>
          if \<not> may_operate d account aid uid then (No_Permission, d)
          else
            let (user_data, d0) = get_user_account uid [] d;
                wallet_balance = py_balance (acct_currency account) user_data
            in if wallet_balance < amt then (Insufficient_Balance, d0)
               else (case bank_deposit_transaction aid uid amt account user_data d0 of
                       None \<Rightarrow> (Database_Error, d0)
                     | Some d' \<Rightarrow>
                         (Bank_Success (round_double (balance account + amt))
                            (round_double (py_balance (acct_currency account) user_data - amt)), d')))"

definition bank_withdraw_transaction ::
  "int \<Rightarrow> string \<Rightarrow> real \<Rightarrow> bank_account \<Rightarrow> user \<Rightarrow> db \<Rightarrow> db option" where
  "bank_withdraw_transaction aid uid amt account user_data d =
     (let c = acct_currency account
      in case update_bank_balance aid (round_double (balance account - amt)) d of
           None \<Rightarrow> None
         | Some d1 \<Rightarrow>
             let d2 = py_set_balance c uid (round_double (py_balance c user_data + amt)) d1
             in (case insert_bank_ledger True
                        \<lparr>bl_account_id = aid, entry_type = ''withdrawal'', bl_amount = amt,
                         bl_currency = c, bl_description = ''Withdrawal to wallet'',
                         counterparty_account_id = None, created_by_user_id = uid\<rparr> d2 of
                   None \<Rightarrow> None
                 | Some d3 \<Rightarrow>
                     insert_transaction
                       \<lparr>tx_user_id = uid, transaction_type = ''bank_withdrawal'', tx_amount = amt,
                        tx_currency = c,
                        tx_description = ''Withdrawal from bank account '' @ account_number account,
                        partner_id = None\<rparr> d3))"

definition bank_withdraw :: "int \<Rightarrow> string \<Rightarrow> real \<Rightarrow> db \<Rightarrow> bank_reply \<times> db" where
  "bank_withdraw aid uid amt d =
     (if amt \<le> 0 then (Amount_Must_Be_Positive, d)
      else case active_account d aid of
        None \<Rightarrow> (Account_Not_Found_Or_Inactive, d)
      | Some account \<Rightarrow>
          if \<not> may_operate d account aid uid then (No_Permission, d)
          else if balance account < amt then (Insufficient_Balance, d)
          else
            let (user_data, d0) = get_user_account uid [] d
            in (case bank_withdraw_transaction aid uid amt account user_data d0 of
                  None \<Rightarrow> (Database_Error, d0)
                | Some d' \<Rightarrow>
                    (Bank_Success (round_double (balance account - amt))
                       (round_double (py_balance (acct_currency account) user_data + amt)), d')))"

definition bank_transfer_transaction ::
  "int \<Rightarrow> int \<Rightarrow> string \<Rightarrow> real \<Rightarrow> string option \<Rightarrow> bank_account \<Rightarrow> bank_account \<Rightarrow> db \<Rightarrow> db option" where
  "bank_transfer_transaction from_id to_id uid amt description from_account to_account d =
     (case update_bank_balance from_id (round_double (balance from_account - amt)) d of
        None \<Rightarrow> None
      | Some d1 \<Rightarrow>
          (case update_bank_balance to_id (round_double (balance to_account + amt)) d1 of
             None \<Rightarrow> None
           | Some d2 \<Rightarrow>
               let text = (case description of
                             None \<Rightarrow> ''Transfer to '' @ account_number to_account
                           | Some t \<Rightarrow> if t = [] then ''Transfer to '' @ account_number to_account else t)
               in (case insert_bank_ledger True
                          \<lparr>bl_account_id = from_id, entry_type = ''transfer_out'', bl_amount = amt,
                           bl_currency = acct_currency from_account, bl_description = text,
                           counterparty_account_id = Some to_id, created_by_user_id = uid\<rparr> d2 of
                     None \<Rightarrow> None
                   | Some d3 \<Rightarrow>
                       (case insert_bank_ledger True
                               \<lparr>bl_account_id = to_id, entry_type = ''transfer_in'', bl_amount = amt,
                                bl_currency = acct_currency to_account,
                                bl_description = ''Transfer from '' @ account_number from_account,
                                counterparty_account_id = Some from_id, created_by_user_id = uid\<rparr> d3 of
                          None \<Rightarrow> None
                        | Some d4 \<Rightarrow>
                            insert_transaction
                              \<lparr>tx_user_id = uid, transaction_type = ''bank_transfer'', tx_amount = amt,
                               tx_currency = acct_currency from_account,
                               tx_description = ''Transfer from '' @ account_number from_account @
                                                '' to '' @ account_number to_account,
                               partner_id = None\<rparr> d4))))"

definition bank_transfer :: "int \<Rightarrow> int \<Rightarrow> string \<Rightarrow> real \<Rightarrow> string option \<Rightarrow> db \<Rightarrow> bank_reply \<times> db" where
  "bank_transfer from_id to_id uid amt description d =
     (if amt \<le> 0 then (Amount_Must_Be_Positive, d)
      else if from_id = to_id then (Same_Account, d)
      else
        let accounts = filter (\<lambda>r. account_id r \<in> set [from_id, to_id] \<and> acct_status r = ''active'' \<and>
                                    list_ex (\<lambda>b. business_id b = institution_business_id r) (businesses d))
                              (bank_accounts d)
        in if length accounts \<noteq> 2 then (Account_Not_Found_Or_Inactive, d)
           else
             (case (find (\<lambda>r. account_id r = from_id) accounts, find (\<lambda>r. account_id r = to_id) accounts) of
                (Some from_account, Some to_account) \<Rightarrow>
                  if acct_currency from_account \<noteq> acct_currency to_account then (Different_Currencies, d)
                  else if \<not> may_operate d from_account from_id uid then (No_Permission, d)
                  else if balance from_account < amt then (Insufficient_Balance, d)
                  else (case bank_transfer_transaction from_id to_id uid amt description
                               from_account to_account d of
                          None \<Rightarrow> (Database_Error, d)
                        | Some d' \<Rightarrow>
                            (Bank_Success (round_double (balance from_account - amt))
                               (round_double (balance to_account + amt)), d'))
              | _ \<Rightarrow> (Account_Configuration_Error, d)))"

subsection \<open>Currency exchange\<close>

definition get_exchange_rate :: real where
  "get_exchange_rate = 12"

datatype exchange_reply =
    Currencies_Must_Be_Gold_Or_Silver
  | Cannot_Exchange_Same_Currency
  | Exchange_Must_Be_Positive
  | Exchange_Insufficient_Funds
  | Error_Processing_Exchange
  | Exchange_Successful real real

text \<open>\<open>fmt\<close> is Python's \<^verbatim>\<open>:.2f\<close> formatting of a float, used only in the description.\<close>

definition currency_exchange ::
  "(real \<Rightarrow> string) \<Rightarrow> string \<Rightarrow> string \<Rightarrow> real \<Rightarrow> string \<Rightarrow> string \<Rightarrow> db \<Rightarrow> exchange_reply \<times> db" where
  "currency_exchange fmt caller caller_name amt from_currency to_currency d =
     (if lower from_currency \<notin> set [''gold'', ''silver''] \<or> lower to_currency \<notin> set [''gold'', ''silver'']
      then (Currencies_Must_Be_Gold_Or_Silver, d)
      else if lower from_currency = lower to_currency then (Cannot_Exchange_Same_Currency, d)
      else if amt \<le> 0 then (Exchange_Must_Be_Positive, d)
      else
        let (user_data, d0) = get_user_account caller caller_name d;
            exchange_rate = get_exchange_rate;
            from_gold = (lower from_currency = ''gold'')
        in if (if from_gold then gold_dinars user_data < amt else silver_dirhams user_data < amt)
           then (Exchange_Insufficient_Funds, d0)
           else
             let received_amount = (if from_gold then round_double (amt * exchange_rate)
                                    else round_double (amt / exchange_rate));
                 new_gold = (if from_gold then round_double (gold_dinars user_data - amt)
                             else round_double (gold_dinars user_data + received_amount));
                 new_silver = (if from_gold then round_double (silver_dirhams user_data + received_amount)
                               else round_double (silver_dirhams user_data - amt));
                 d1 = d0\<lparr>users := update_where (\<lambda>u. user_id u = user_id user_data)
                                      (\<lambda>u. u\<lparr>gold_dinars := new_gold, silver_dirhams := new_silver\<rparr>)
                                      (users d0)\<rparr>
             in (case insert_transaction
                        \<lparr>tx_user_id = user_id user_data, transaction_type = ''currency_exchange'',
                         tx_amount = amt,
                         tx_currency = lower from_currency @ ''_to_'' @ lower to_currency,
                         tx_description = ''Exchanged '' @ fmt amt @ '' '' @ from_currency @ '' for '' @
                                          fmt received_amount @ '' '' @ to_currency,
                         partner_id = None\<rparr> d1 of
                   None \<Rightarrow> (Error_Processing_Exchange, d0)
                 | Some d2 \<Rightarrow> (Exchange_Successful new_gold new_silver, d2)))"

subsection \<open>Loan lifecycle monitor\<close>

text \<open>
  Columns of \<^verbatim>\<open>users\<close> as \<^verbatim>\<open>init_database\<close> creates the table, and the columns that the
  \<^verbatim>\<open>UPDATE users SET ...\<close> of \<^verbatim>\<open>reset_user_data\<close> assigns. A statement that names a
  column the table does not have cannot be prepared: sqlite3 raises OperationalError.
\<close>

definition users_table_columns :: "string list" where
  "users_table_columns =
     [''user_id'', ''username'', ''gold_dinars'', ''silver_dirhams'', ''last_zakat_payment'',
      ''total_charity'', ''created_at'']"

definition reset_update_columns :: "string list" where
  "reset_update_columns =
     [''gold_dinars'', ''silver_dirhams'', ''last_work_date'', ''last_community_service'',
      ''last_quran_recitation'', ''last_skill_development'', ''last_mentoring'', ''current_job'',
      ''daily_earnings'', ''skill_count'', ''charity_count'', ''quran_count'', ''mentoring_count'',
      ''service_count'']"

definition has_column :: "string list \<Rightarrow> string \<Rightarrow> bool" where
  "has_column cols c = (lower c \<in> set (map lower cols))"

text \<open>
  \<open>today\<close> is the day of \<^verbatim>\<open>datetime.datetime.now()\<close>; the cutoff is the day fourteen days
  before it. The rows are the tuples
  \<^verbatim>\<open>(borrower_id, due_date, loan_amount, repaid_amount, id)\<close>.
\<close>

type_synonym overdue_row = "string \<times> int \<times> real \<times> real \<times> int"

definition check_overdue_loans :: "int \<Rightarrow> db \<Rightarrow> overdue_row list" where
  "check_overdue_loans today d =
     (let cutoff_date = today - 14
      in remdups (map (\<lambda>l. (borrower_id l, due_date l, loan_amount l, repaid_amount l, loan_id l))
                   (filter (\<lambda>l. loan_status l = ''active'' \<and> due_date l < cutoff_date \<and>
                                 repaid_amount l < loan_amount l)
                           (loans d))))"

text \<open>
  One implicit transaction: an exception leaves the function through \<^verbatim>\<open>except\<close> with
  nothing committed and the result \<^verbatim>\<open>False\<close>.
\<close>

definition reset_user_data :: "string \<Rightarrow> string \<Rightarrow> db \<Rightarrow> bool \<times> db" where
  "reset_user_data uid reason d =
     (case insert_transaction
             \<lparr>tx_user_id = uid, transaction_type = ''account_reset'', tx_amount = 0,
              tx_currency = ''system'', tx_description = ''Account reset: '' @ reason,
              partner_id = None\<rparr> d of
        None \<Rightarrow> (False, d)
      | Some d1 \<Rightarrow>
          if \<not> list_all (has_column users_table_columns) reset_update_columns then (False, d)
          else
            let d2 = d1\<lparr>users := update_where (\<lambda>u. user_id u = uid)
                                     (\<lambda>u. u\<lparr>gold_dinars := 0, silver_dirhams := 0\<rparr>) (users d1)\<rparr>;
                d3 = d2\<lparr>businesses := update_where (\<lambda>b. biz_user_id b = uid \<and> biz_status b = ''active'')
                                          (\<lambda>b. b\<lparr>biz_status := ''closed''\<rparr>) (businesses d2)\<rparr>;
                d4 = d3\<lparr>loan_applications :=
                          update_where (\<lambda>a. app_borrower_id a = uid \<and> app_status a = ''pending'')
                            (\<lambda>a. a\<lparr>app_status := ''cancelled''\<rparr>) (loan_applications d3)\<rparr>;
                d5 = d4\<lparr>loans := update_where (\<lambda>l. borrower_id l = uid \<and> loan_status l = ''active'')
                                     (\<lambda>l. l\<lparr>loan_status := ''defaulted''\<rparr>) (loans d4)\<rparr>;
                d6 = d5\<lparr>investments := update_where (\<lambda>i. inv_user_id i = uid \<and> inv_status i = ''active'')
                                           (\<lambda>i. i\<lparr>inv_status := ''cancelled''\<rparr>) (investments d5)\<rparr>;
                d7 = d6\<lparr>marketplace := filter (\<lambda>m. seller_id m \<noteq> uid) (marketplace d6)\<rparr>
            in (True, d7))"

datatype notification =
    Overdue_Warning string int
  | Account_Reset_Notice string string

text \<open>
  The loop of \<^verbatim>\<open>process_overdue_loans\<close> with its set \<^verbatim>\<open>processed_users\<close>. \<open>reason_text\<close>
  is the f-string that formats the unpaid amount and the days into the reset reason.
\<close>

fun process_rows ::
  "(real \<Rightarrow> int \<Rightarrow> string) \<Rightarrow> int \<Rightarrow> overdue_row list \<Rightarrow> string list \<Rightarrow> db \<Rightarrow> notification list \<times> db" where
  "process_rows reason_text today [] processed_users d = ([], d)"
| "process_rows reason_text today ((uid, due, amt, repaid, lid) # rest) processed_users d =
     (if uid \<in> set processed_users then process_rows reason_text today rest processed_users d
      else
        let days_overdue = today - due
        in if days_overdue \<ge> 14 then
             (case reset_user_data uid (reason_text (round_double (amt - repaid)) days_overdue) d of
                (ok, d') \<Rightarrow>
                  (case process_rows reason_text today rest (uid # processed_users) d' of
                     (sent, d'') \<Rightarrow>
                       ((if ok then [Account_Reset_Notice uid (reason_text (round_double (amt - repaid)) days_overdue)]
                         else []) @ sent, d'')))
           else if days_overdue \<ge> 7 then
             (case process_rows reason_text today rest (uid # processed_users) d of
                (sent, d') \<Rightarrow> (Overdue_Warning uid days_overdue # sent, d'))
           else process_rows reason_text today rest processed_users d)"

definition process_overdue_loans ::
  "(real \<Rightarrow> int \<Rightarrow> string) \<Rightarrow> int \<Rightarrow> db \<Rightarrow> notification list \<times> db" where
  "process_overdue_loans reason_text today d =
     (let overdue_loans = check_overdue_loans today d
      in if overdue_loans = [] then ([], d)
         else process_rows reason_text today overdue_loans [] d)"

fun is_warning :: "notification \<Rightarrow> bool" where
  "is_warning (Overdue_Warning uid days) = True"
| "is_warning (Account_Reset_Notice uid reason) = False"

subsection \<open>Predicates used in the statements\<close>

text \<open>Invariant 5 of the data model: a ratio is present exactly on profit-sharing accounts.\<close>

definition ratio_rule :: "db \<Rightarrow> bool" where
  "ratio_rule d =
     list_all (\<lambda>r. (profit_share_ratio r \<noteq> None) = (account_type r = ''mudarabah'')) (bank_accounts d)"

text \<open>A request that passes every check of \<^verbatim>\<open>create_bank_account\<close> before its inserts.\<close>

definition opening_request_valid ::
  "string \<Rightarrow> int \<Rightarrow> string \<Rightarrow> string \<Rightarrow> real option \<Rightarrow> db \<Rightarrow> bool" where
  "opening_request_valid owner institution_id atype c ratio d =
     (atype \<in> set [''wadiah'', ''mudarabah''] \<and>
      c \<in> set [''gold_dinars'', ''silver_dirhams''] \<and>
      (if atype = ''mudarabah''
       then (case ratio of None \<Rightarrow> False | Some r \<Rightarrow> 0 \<le> r \<and> r \<le> 1)
       else ratio = None) \<and>
      get_user_account_count owner institution_id d < 5 \<and>
      list_ex (\<lambda>b. business_id b = institution_id \<and> business_type b = ''islamic_finance'' \<and>
                   biz_status b = ''active'' \<and> license_code b \<noteq> None) (businesses d))"

subsection \<open>Requests, sequences of operations and the data of the examples\<close>

definition passes_validation :: "string \<Rightarrow> pay_request \<Rightarrow> string \<Rightarrow> string \<Rightarrow> real \<Rightarrow> string \<Rightarrow> bool" where
  "passes_validation API_TOKEN request a b amt c =
     (verify_api_token API_TOKEN (auth_token request) \<and>
      (case json request of
         None \<Rightarrow> False
       | Some data \<Rightarrow>
           from_user data = Some a \<and> to_user data = Some b \<and>
           validate_user_id (Some a) \<and> validate_user_id (Some b) \<and>
           validate_amount (amount data) \<and> to_float (amount data) = Some amt \<and>
           body_currency data = c \<and> c \<in> set [''gold_dinars'', ''silver_dirhams''] \<and>
           a \<noteq> b))"

definition alice :: string where "alice = ''11111111111111111''"

definition bob :: string where "bob = ''22222222222222222''"

definition demo_db :: db where
  "demo_db =
     \<lparr>users = [\<lparr>user_id = alice, username = ''A'', gold_dinars = 100, silver_dirhams = 500\<rparr>,
               \<lparr>user_id = bob, username = ''B'', gold_dinars = 0, silver_dirhams = 500\<rparr>],
      transactions = [], loan_applications = [], loans = [], businesses = [],
      investments = [], marketplace = [], bank_accounts = [], bank_ledger = [],
      bank_account_permissions = []\<rparr>"

definition demo_request :: "string \<Rightarrow> real \<Rightarrow> pay_request" where
  "demo_request to amt =
     \<lparr>auth_token = ''secret'',
      json = Some \<lparr>from_user = Some alice, to_user = Some to, amount = Number amt,
                   currency = Some ''gold_dinars''\<rparr>\<rparr>"

definition carol :: string where "carol = ''33333333333333333''"

definition rounding_db :: db where
  "rounding_db =
     \<lparr>users = [\<lparr>user_id = alice, username = ''A'', gold_dinars = 100, silver_dirhams = 500\<rparr>,
               \<lparr>user_id = bob, username = ''B'', gold_dinars = 500, silver_dirhams = 500\<rparr>],
      transactions = [], loan_applications = [], loans = [], businesses = [],
      investments = [], marketplace = [], bank_accounts = [], bank_ledger = [],
      bank_account_permissions = []\<rparr>"

definition demo_bank_db :: db where
  "demo_bank_db =
     \<lparr>users = [\<lparr>user_id = alice, username = ''A'', gold_dinars = 100, silver_dirhams = 500\<rparr>,
               \<lparr>user_id = bob, username = ''B'', gold_dinars = 0, silver_dirhams = 500\<rparr>],
      transactions = [], loan_applications = [], loans = [],
      businesses = [\<lparr>business_id = 1, biz_user_id = alice, business_name = ''Amanah Bank'',
                     business_type = ''islamic_finance'', biz_status = ''active'',
                     license_code = Some ''LIC-0001''\<rparr>],
      investments = [], marketplace = [],
      bank_accounts = [\<lparr>account_id = 1, account_number = ''IBK-AAAAAAAA'',
                        institution_business_id = 1, owner_user_id = alice,
                        account_type = ''mudarabah'', acct_currency = ''gold_dinars'', balance = 40,
                        profit_share_ratio = Some (1 / 2), acct_status = ''active''\<rparr>,
                       \<lparr>account_id = 2, account_number = ''IBK-BBBBBBBB'',
                        institution_business_id = 1, owner_user_id = bob,
                        account_type = ''wadiah'', acct_currency = ''gold_dinars'', balance = 0,
                        profit_share_ratio = None, acct_status = ''active''\<rparr>],
      bank_ledger = [], bank_account_permissions = []\<rparr>"

definition overdue_db :: db where
  "overdue_db =
     \<lparr>users = [\<lparr>user_id = alice, username = ''A'', gold_dinars = 100, silver_dirhams = 450\<rparr>,
               \<lparr>user_id = bob, username = ''B'', gold_dinars = 100, silver_dirhams = 550\<rparr>],
      transactions = [],
      loan_applications = [],
      loans = [\<lparr>loan_id = 1, lender_id = alice, borrower_id = bob, loan_amount = 50,
                loan_currency = ''silver_dirhams'', due_date = 1000, repaid_amount = 0,
                loan_status = ''active''\<rparr>],
      businesses = [], investments = [], marketplace = [], bank_accounts = [], bank_ledger = [],
      bank_account_permissions = []\<rparr>"

definition demo_reason :: "real \<Rightarrow> int \<Rightarrow> string" where
  "demo_reason remaining days_overdue = ''Loan default - unpaid for '' @ str_int days_overdue @ '' days''"

definition loan_db :: db where
  "loan_db =
     \<lparr>users = [\<lparr>user_id = alice, username = ''A'', gold_dinars = 100, silver_dirhams = 500\<rparr>,
               \<lparr>user_id = bob, username = ''B'', gold_dinars = 30, silver_dirhams = 500\<rparr>],
      transactions = [],
      loan_applications =
        [\<lparr>app_id = 1, app_borrower_id = bob, borrower_name = ''B'', app_loan_amount = 50,
          app_currency = ''silver_dirhams'', repayment_days = 30, app_due_date = 1030,
          purpose = ''tools for the workshop'', app_status = ''pending'', funded_by = None\<rparr>,
         \<lparr>app_id = 2, app_borrower_id = bob, borrower_name = ''B'', app_loan_amount = 20,
          app_currency = ''gold_dinars'', repayment_days = 10, app_due_date = 1010,
          purpose = ''seed for the field'', app_status = ''funded'', funded_by = Some alice\<rparr>],
      loans = [\<lparr>loan_id = 1, lender_id = alice, borrower_id = bob, loan_amount = 20,
                loan_currency = ''gold_dinars'', due_date = 1010, repaid_amount = 0,
                loan_status = ''active''\<rparr>],
      businesses = [], investments = [], marketplace = [], bank_accounts = [], bank_ledger = [],
      bank_account_permissions = []\<rparr>"


definition cents_db :: db where
  "cents_db =
     \<lparr>users = [\<lparr>user_id = alice, username = ''A'', gold_dinars = 100, silver_dirhams = 500\<rparr>,
               \<lparr>user_id = bob, username = ''B'', gold_dinars = 30, silver_dirhams = 500\<rparr>],
      transactions = [], loan_applications = [],
      loans = [\<lparr>loan_id = 1, lender_id = alice, borrower_id = bob,
                loan_amount = round_double (11 / 100), loan_currency = ''gold_dinars'',
                due_date = 1010, repaid_amount = round_double (4 / 100),
                loan_status = ''active''\<rparr>],
      businesses = [], investments = [], marketplace = [], bank_accounts = [], bank_ledger = [],
      bank_account_permissions = []\<rparr>"

text \<open>
  A sequence of \<^verbatim>\<open>repay_loan\<close> commands, each with its caller, the caller's name, the
  loan id and the amount; and what such a sequence may do to one loan row.
\<close>

type_synonym repay_call = "string \<times> string \<times> int \<times> real"

fun repay_all :: "repay_call list \<Rightarrow> db \<Rightarrow> db" where
  "repay_all [] d = d"
| "repay_all ((caller, caller_name, lid, amt) # calls) d =
     repay_all calls (snd (repay_loan caller caller_name lid amt d))"

definition repaid_progress :: "loan \<Rightarrow> loan \<Rightarrow> bool" where
  "repaid_progress l l' =
     (loan_id l' = loan_id l \<and> loan_amount l' = loan_amount l \<and> borrower_id l' = borrower_id l \<and>
      (l' = l \<or>
       (repaid_amount l \<le> repaid_amount l' \<and>
        round_double (repaid_amount l') = repaid_amount l' \<and>
        repaid_amount l' \<le> loan_amount l' + ulp (loan_amount l') \<and>
        (loan_status l' = ''completed'') = (loan_amount l' \<le> repaid_amount l'))))"

definition repaid_row :: "loan \<Rightarrow> real \<Rightarrow> loan \<Rightarrow> loan" where
  "repaid_row l amt r =
     r\<lparr>repaid_amount := round_double (repaid_amount l + amt),
       loan_status := (if round_double (repaid_amount l + amt) \<ge> loan_amount l
                       then ''completed'' else ''active'')\<rparr>"

definition demo_loan :: loan where
  "demo_loan = \<lparr>loan_id = 1, lender_id = alice, borrower_id = bob, loan_amount = 20,
                 loan_currency = ''gold_dinars'', due_date = 1010, repaid_amount = 0,
                 loan_status = ''active''\<rparr>"

text \<open>
  The money operations as requests, executed one after the other: each runs to its end
  on the database the previous one left.
\<close>

datatype money_op =
    Wallet_Transfer string pay_request
  | Loan_Application int string string real string int string
  | Loan_Funding string string int
  | Loan_Repayment string string int real
  | Deposit int string real
  | Withdrawal int string real
  | Account_Transfer int int string real "string option"
  | Exchange string string real string string

fun step :: "(real \<Rightarrow> string) \<Rightarrow> money_op \<Rightarrow> db \<Rightarrow> db" where
  "step fmt (Wallet_Transfer API_TOKEN request) d = snd (transfer_money API_TOKEN request d)"
| "step fmt (Loan_Application today caller caller_name amt c days why) d =
     snd (apply_for_loan today caller caller_name amt c days why d)"
| "step fmt (Loan_Funding lender lender_name application_id) d =
     snd (fund_loan lender lender_name application_id d)"
| "step fmt (Loan_Repayment caller caller_name lid amt) d =
     snd (repay_loan caller caller_name lid amt d)"
| "step fmt (Deposit aid uid amt) d = snd (bank_deposit aid uid amt d)"
| "step fmt (Withdrawal aid uid amt) d = snd (bank_withdraw aid uid amt d)"
| "step fmt (Account_Transfer from_id to_id uid amt description) d =
     snd (bank_transfer from_id to_id uid amt description d)"
| "step fmt (Exchange caller caller_name amt from_currency to_currency) d =
     snd (currency_exchange fmt caller caller_name amt from_currency to_currency d)"

fun run :: "(real \<Rightarrow> string) \<Rightarrow> money_op list \<Rightarrow> db \<Rightarrow> db" where
  "run fmt [] d = d"
| "run fmt (x # xs) d = run fmt xs (step fmt x d)"



definition applications_nonneg :: "db \<Rightarrow> bool" where
  "applications_nonneg d =
     list_all (\<lambda>a. app_status a = ''pending'' \<longrightarrow> 0 \<le> app_loan_amount a) (loan_applications d)"



definition demo_fmt :: "real \<Rightarrow> string" where
  "demo_fmt x = ''0.00''"

definition settled :: "int \<Rightarrow> db \<Rightarrow> bool" where
  "settled application_id d =
     (application_id \<in> set (map app_id (loan_applications d)) \<and>
      list_all (\<lambda>a. app_id a = application_id \<longrightarrow> app_status a \<noteq> ''pending'') (loan_applications d))"

section \<open>Verified properties\<close>

subsection \<open>Rounding to binary64\<close>

lemma round_half_even_of_int [simp]: "round_half_even (of_int n) = n"
  by (simp add: round_half_even_def)

lemma round_half_even_cases:
  "round_half_even y = \<lfloor>y\<rfloor> \<or> round_half_even y = \<lfloor>y\<rfloor> + 1"
  by (simp add: round_half_even_def Let_def)

lemma round_half_even_mono:
  assumes "y \<le> z"
  shows "round_half_even y \<le> round_half_even z"
proof (cases "\<lfloor>y\<rfloor> = \<lfloor>z\<rfloor>")
  case True
  with assms show ?thesis
    by (auto simp add: round_half_even_def Let_def)
next
  case False
  with assms have "\<lfloor>y\<rfloor> < \<lfloor>z\<rfloor>"
    using floor_mono [of y z] by linarith
  moreover have "round_half_even y \<le> \<lfloor>y\<rfloor> + 1"
    using round_half_even_cases [of y] by linarith
  moreover have "\<lfloor>z\<rfloor> \<le> round_half_even z"
    using round_half_even_cases [of z] by linarith
  ultimately show ?thesis by linarith
qed

lemma round_half_even_ge: "of_int n \<le> y \<Longrightarrow> n \<le> round_half_even y"
  using round_half_even_mono [of "of_int n" y] by simp

lemma round_half_even_le: "y \<le> of_int n \<Longrightarrow> round_half_even y \<le> n"
  using round_half_even_mono [of y "of_int n"] by simp

lemma round_half_even_minus: "round_half_even (- y) = - round_half_even y"
proof (cases "y = of_int \<lfloor>y\<rfloor>")
  case True
  then obtain n where "y = of_int n" ..
  then have "- y = of_int (- n)" by simp
  then show ?thesis using \<open>y = of_int n\<close> by (simp only: round_half_even_of_int)
next
  case False
  have lt: "of_int \<lfloor>y\<rfloor> < y"
    using False of_int_floor_le [of y] by linarith
  have f: "\<lfloor>- y\<rfloor> = - \<lfloor>y\<rfloor> - 1"
    using lt by (intro floor_unique) (simp_all, linarith+)
  from lt show ?thesis
    unfolding round_half_even_def Let_def f by auto
qed

lemma binade_bounds:
  assumes "x \<noteq> 0"
  shows "2 powr of_int (binade x) \<le> \<bar>x\<bar>" and "\<bar>x\<bar> < 2 powr (of_int (binade x) + 1)"
proof -
  from assms have p: "0 < \<bar>x\<bar>" by simp
  have "of_int (binade x) \<le> log 2 \<bar>x\<bar>" by (simp add: binade_def)
  then show "2 powr of_int (binade x) \<le> \<bar>x\<bar>"
    using p by (simp add: le_log_iff)
  have "log 2 \<bar>x\<bar> < of_int (binade x) + 1" by (simp add: binade_def)
  then show "\<bar>x\<bar> < 2 powr (of_int (binade x) + 1)"
    using p by (simp add: log_less_iff)
qed

lemma binade_eq:
  assumes "2 powr of_int e \<le> \<bar>x\<bar>" and "\<bar>x\<bar> < 2 powr (of_int e + 1)"
  shows "binade x = e"
proof -
  have "0 < (2::real) powr of_int e" by simp
  with assms(1) have p: "0 < \<bar>x\<bar>" by linarith
  from assms(1) p have "of_int e \<le> log 2 \<bar>x\<bar>" by (simp add: le_log_iff)
  moreover from assms(2) p have "log 2 \<bar>x\<bar> < of_int e + 1" by (simp add: log_less_iff)
  ultimately show ?thesis unfolding binade_def by (rule floor_unique)
qed

lemma binade_minus [simp]: "binade (- x) = binade x"
  by (simp add: binade_def)

lemma binade_mono:
  assumes "0 < x" and "x \<le> y"
  shows "binade x \<le> binade y"
  unfolding binade_def using assms by (intro floor_mono) simp

lemma round_double_zero [simp]: "round_double 0 = 0"
  by (simp add: round_double_def)

lemma round_double_minus [simp]: "round_double (- x) = - round_double x"
  by (simp add: round_double_def ulp_def round_half_even_minus)

lemma round_double_eval:
  assumes "2 powr of_int e \<le> \<bar>x\<bar>" and "\<bar>x\<bar> < 2 powr (of_int e + 1)"
  shows "round_double x =
           of_int (round_half_even (x / 2 powr of_int (e - 52))) * 2 powr of_int (e - 52)"
proof -
  have "0 < (2::real) powr of_int e" by simp
  with assms(1) have "x \<noteq> 0" by auto
  moreover from assms have "binade x = e" by (rule binade_eq)
  ultimately show ?thesis by (simp add: round_double_def ulp_def)
qed

lemma scaled_bounds:
  assumes "0 < x"
  shows "2 ^ 52 \<le> x / 2 powr of_int (binade x - 52)"
    and "x / 2 powr of_int (binade x - 52) < 2 ^ 53"
proof -
  let ?b = "binade x"
  from assms have nz: "x \<noteq> 0" and ab: "\<bar>x\<bar> = x" by simp_all
  have u: "0 < (2::real) powr of_int (?b - 52)" by simp
  have "2 ^ 52 * 2 powr of_int (?b - 52) = (2::real) powr 52 * 2 powr (of_int ?b - 52)"
    by simp
  also have "\<dots> = 2 powr of_int ?b"
    by (simp only: powr_add [symmetric]) simp
  finally have e1: "2 ^ 52 * 2 powr of_int (?b - 52) = (2::real) powr of_int ?b" .
  have "2 ^ 53 * 2 powr of_int (?b - 52) = (2::real) powr 53 * 2 powr (of_int ?b - 52)"
    by simp
  also have "\<dots> = 2 powr (of_int ?b + 1)"
    by (simp only: powr_add [symmetric]) (simp add: add.commute)
  finally have e2: "2 ^ 53 * 2 powr of_int (?b - 52) = (2::real) powr (of_int ?b + 1)" .
  from binade_bounds(1) [OF nz] ab e1 have "2 ^ 52 * 2 powr of_int (?b - 52) \<le> x" by simp
  with u show "2 ^ 52 \<le> x / 2 powr of_int (?b - 52)" by (simp add: pos_le_divide_eq)
  from binade_bounds(2) [OF nz] ab e2 have "x < 2 ^ 53 * 2 powr of_int (?b - 52)" by simp
  with u show "x / 2 powr of_int (?b - 52) < 2 ^ 53" by (simp add: pos_divide_less_eq)
qed


lemma ulp_times:
  "2 ^ 52 * 2 powr of_int (b - 52) = (2::real) powr of_int b"
  "2 ^ 53 * 2 powr of_int (b - 52) = (2::real) powr (of_int b + 1)"
proof -
  have "2 ^ 52 * 2 powr of_int (b - 52) = (2::real) powr 52 * 2 powr (of_int b - 52)"
    by simp
  also have "\<dots> = 2 powr of_int b"
    by (simp only: powr_add [symmetric]) simp
  finally show "2 ^ 52 * 2 powr of_int (b - 52) = (2::real) powr of_int b" .
  have "2 ^ 53 * 2 powr of_int (b - 52) = (2::real) powr 53 * 2 powr (of_int b - 52)"
    by simp
  also have "\<dots> = 2 powr (of_int b + 1)"
    by (simp only: powr_add [symmetric]) (simp add: add.commute)
  finally show "2 ^ 53 * 2 powr of_int (b - 52) = (2::real) powr (of_int b + 1)" .
qed

lemma mantissa_bounds:
  assumes "0 < x"
  shows "2 ^ 52 \<le> round_half_even (x / 2 powr of_int (binade x - 52))"
    and "round_half_even (x / 2 powr of_int (binade x - 52)) \<le> 2 ^ 53"
proof -
  have "of_int (2 ^ 52) \<le> x / 2 powr of_int (binade x - 52)"
    using scaled_bounds(1) [OF assms] by simp
  then show "2 ^ 52 \<le> round_half_even (x / 2 powr of_int (binade x - 52))"
    by (rule round_half_even_ge)
  have "x / 2 powr of_int (binade x - 52) \<le> of_int (2 ^ 53)"
    using scaled_bounds(2) [OF assms] by simp
  then show "round_half_even (x / 2 powr of_int (binade x - 52)) \<le> 2 ^ 53"
    by (rule round_half_even_le)
qed

lemma round_double_pos:
  assumes "0 < x"
  shows "round_double x =
           of_int (round_half_even (x / 2 powr of_int (binade x - 52))) * 2 powr of_int (binade x - 52)"
  using assms by (simp add: round_double_def ulp_def)

lemma round_double_bounds:
  assumes "0 < x"
  shows "2 powr of_int (binade x) \<le> round_double x"
    and "round_double x \<le> 2 powr (of_int (binade x) + 1)"
proof -
  let ?u = "2 powr of_int (binade x - 52) :: real"
  let ?m = "round_half_even (x / ?u)"
  have u: "0 \<le> ?u" by simp
  have "(2::real) ^ 52 \<le> of_int ?m"
    using mantissa_bounds(1) [OF assms] by (metis of_int_le_iff of_int_numeral of_int_power)
  then have "2 ^ 52 * ?u \<le> of_int ?m * ?u" using u by (rule mult_right_mono)
  then show "2 powr of_int (binade x) \<le> round_double x"
    by (simp only: ulp_times round_double_pos [OF assms])
  have "of_int ?m \<le> (2::real) ^ 53"
    using mantissa_bounds(2) [OF assms] by (metis of_int_le_iff of_int_numeral of_int_power)
  then have "of_int ?m * ?u \<le> 2 ^ 53 * ?u" using u by (rule mult_right_mono)
  then show "round_double x \<le> 2 powr (of_int (binade x) + 1)"
    by (simp only: ulp_times round_double_pos [OF assms])
qed

lemma round_double_nonneg: "0 \<le> x \<Longrightarrow> 0 \<le> round_double x"
proof (cases "x = 0")
  case False
  assume "0 \<le> x"
  with False have "0 < x" by simp
  have "0 < (2::real) powr of_int (binade x)" by simp
  with round_double_bounds(1) [OF \<open>0 < x\<close>] show ?thesis by linarith
qed simp

lemma round_double_mono_pos:
  assumes "0 < x" and "x \<le> y"
  shows "round_double x \<le> round_double y"
proof (cases "binade x = binade y")
  case True
  from assms have y: "0 < y" by linarith
  let ?u = "2 powr of_int (binade y - 52) :: real"
  have u: "0 < ?u" by simp
  from assms(2) u have "x / ?u \<le> y / ?u" by (simp add: divide_right_mono)
  then have "round_half_even (x / ?u) \<le> round_half_even (y / ?u)"
    by (rule round_half_even_mono)
  then have "of_int (round_half_even (x / ?u)) * ?u \<le> of_int (round_half_even (y / ?u)) * ?u"
    using u by (simp add: mult_right_mono)
  then show ?thesis
    by (simp only: round_double_pos [OF assms(1)] round_double_pos [OF y] True)
next
  case False
  from assms have y: "0 < y" by linarith
  from False binade_mono [OF assms] have "binade x + 1 \<le> binade y" by linarith
  then have "of_int (binade x) + 1 \<le> (of_int (binade y) :: real)" by linarith
  then have "(2::real) powr (of_int (binade x) + 1) \<le> 2 powr of_int (binade y)"
    by (simp only: powr_le_cancel_iff) 
  with round_double_bounds(2) [OF assms(1)] round_double_bounds(1) [OF y]
  show ?thesis by linarith
qed

lemma round_double_mono:
  assumes "x \<le> y"
  shows "round_double x \<le> round_double y"
proof -
  consider "0 < x" | "x \<le> 0" "0 \<le> y" | "y < 0" by linarith
  then show ?thesis
  proof cases
    case 1
    then show ?thesis using assms by (rule round_double_mono_pos)
  next
    case 2
    then have "0 \<le> round_double (- x)" and "0 \<le> round_double y"
      by (simp_all only: round_double_nonneg neg_0_le_iff_le)
    then show ?thesis by simp
  next
    case 3
    with assms have "0 < - y" and "- y \<le> - x" by simp_all
    then have "round_double (- y) \<le> round_double (- x)" by (rule round_double_mono_pos)
    then show ?thesis by simp
  qed
qed

lemma round_double_exact:
  assumes "2 powr of_int e \<le> \<bar>x\<bar>" and "\<bar>x\<bar> < 2 powr (of_int e + 1)"
    and "x / 2 powr of_int (e - 52) = of_int m"
  shows "round_double x = x"
proof -
  have u: "(2::real) powr of_int (e - 52) \<noteq> 0" by simp
  have "round_double x = of_int m * 2 powr of_int (e - 52)"
    by (simp only: round_double_eval [OF assms(1,2)] assms(3) round_half_even_of_int)
  also have "\<dots> = x"
    using assms(3) u by (simp add: field_simps)
  finally show ?thesis .
qed

lemma round_double_idem_pos:
  assumes "0 < x"
  shows "round_double (round_double x) = round_double x"
proof -
  let ?b = "binade x"
  let ?u = "2 powr of_int (?b - 52) :: real"
  let ?m = "round_half_even (x / ?u)"
  let ?v = "round_double x"
  have u: "0 < ?u" by simp
  have v: "?v = of_int ?m * ?u" by (rule round_double_pos [OF assms])
  have p: "0 < (2::real) powr of_int ?b" by simp
  with round_double_bounds(1) [OF assms] have vpos: "0 < ?v" by linarith
  show ?thesis
  proof (cases "?m = 2 ^ 53")
    case True
    then have "?v = 2 ^ 53 * ?u" using v by simp
    then have v2: "?v = 2 powr (of_int ?b + 1)" by (simp only: ulp_times)
    have "round_double ?v = ?v"
    proof (rule round_double_exact [where e = "?b + 1" and m = "2 ^ 52"])
      show "2 powr of_int (?b + 1) \<le> \<bar>?v\<bar>" using v2 by simp
      show "\<bar>?v\<bar> < 2 powr (of_int (?b + 1) + 1)" using v2 by simp
      have "2 ^ 52 * 2 powr of_int (?b + 1 - 52) = (2::real) powr of_int (?b + 1)"
        by (rule ulp_times)
      then have "?v = 2 ^ 52 * 2 powr of_int (?b + 1 - 52)" using v2 by simp
      then show "?v / 2 powr of_int (?b + 1 - 52) = of_int (2 ^ 52)" by simp
    qed
    then show ?thesis .
  next
    case False
    with mantissa_bounds(2) [OF assms] have "?m < 2 ^ 53" by linarith
    then have "of_int ?m < (2::real) ^ 53"
      by (metis of_int_less_iff of_int_numeral of_int_power)
    then have "of_int ?m * ?u < 2 ^ 53 * ?u" using u by (simp add: mult_strict_right_mono)
    then have lt: "?v < 2 powr (of_int ?b + 1)" by (simp only: ulp_times v)
    show ?thesis
    proof (rule round_double_exact [where e = ?b and m = ?m])
      show "2 powr of_int ?b \<le> \<bar>?v\<bar>" using round_double_bounds(1) [OF assms] vpos by simp
      show "\<bar>?v\<bar> < 2 powr (of_int ?b + 1)" using lt vpos by simp
      show "?v / ?u = of_int ?m" using v u by simp
    qed
  qed
qed

lemma round_double_idem [simp]: "round_double (round_double x) = round_double x"
proof -
  consider "0 < x" | "x = 0" | "0 < - x" by linarith
  then show ?thesis
  proof cases
    case 1 then show ?thesis by (rule round_double_idem_pos)
  next
    case 2 then show ?thesis by simp
  next
    case 3
    then have "round_double (round_double (- x)) = round_double (- x)"
      by (rule round_double_idem_pos)
    then show ?thesis by simp
  qed
qed

lemma round_double_of_int:
  assumes "\<bar>n\<bar> < 2 ^ 53"
  shows "round_double (of_int n) = of_int n"
proof (cases "n = 0")
  case False
  let ?x = "of_int n :: real"
  let ?b = "binade ?x"
  from False have nz: "?x \<noteq> 0" by simp
  have "\<bar>?x\<bar> < 2 ^ 53"
    using assms by (metis of_int_abs of_int_less_iff of_int_numeral of_int_power)
  with binade_bounds(1) [OF nz] have "2 powr of_int ?b < (2::real) powr 53"
    by simp
  then have "of_int ?b < (53::real)" by (simp only: powr_less_cancel_iff)
  then have b: "?b \<le> 52" by linarith
  have "?x / 2 powr of_int (?b - 52) = ?x * 2 powr of_int (52 - ?b)"
    by (simp add: powr_diff field_simps)
  also have "\<dots> = ?x * 2 ^ nat (52 - ?b)"
    using b by (simp add: powr_realpow [symmetric])
  also have "\<dots> = of_int (n * 2 ^ nat (52 - ?b))" by simp
  finally have "?x / 2 powr of_int (?b - 52) = of_int (n * 2 ^ nat (52 - ?b))" .
  with binade_bounds [OF nz] show ?thesis by (rule round_double_exact)
qed simp

lemma round_double_numeral [simp]:
  "numeral k < (2::int) ^ 53 \<Longrightarrow> round_double (numeral k) = numeral k"
  using round_double_of_int [of "numeral k"] by simp

lemma round_double_one [simp]: "round_double 1 = 1"
  using round_double_of_int [of 1] by simp

lemma ulp_pos [simp]: "0 < ulp x"
  by (simp add: ulp_def)

lemma ulp_nonneg [simp]: "0 \<le> ulp x"
  by (simp add: ulp_def)

lemma ulp_neq_zero [simp]: "ulp x \<noteq> 0"
  by (simp add: ulp_def)

lemma round_half_even_error: "\<bar>of_int (round_half_even y) - y\<bar> \<le> 1 / 2"
proof -
  have "of_int \<lfloor>y\<rfloor> \<le> y" "y < of_int \<lfloor>y\<rfloor> + 1" by linarith+
  then show ?thesis
    by (auto simp add: round_half_even_def Let_def abs_le_iff)
qed

lemma round_double_error: "\<bar>round_double x - x\<bar> \<le> ulp x / 2"
proof (cases "x = 0")
  case False
  let ?u = "ulp x"
  have u: "0 < ?u" by simp
  have "round_double x - x = (of_int (round_half_even (x / ?u)) - x / ?u) * ?u"
    using False u by (simp add: round_double_def field_simps)
  then have "\<bar>round_double x - x\<bar> = \<bar>of_int (round_half_even (x / ?u)) - x / ?u\<bar> * \<bar>?u\<bar>"
    by (simp only: abs_mult)
  also have "\<bar>?u\<bar> = ?u" using u by (simp only: abs_of_pos)
  also have "\<bar>of_int (round_half_even (x / ?u)) - x / ?u\<bar> * ?u \<le> (1 / 2) * ?u"
  proof (rule mult_right_mono)
    show "\<bar>of_int (round_half_even (x / ?u)) - x / ?u\<bar> \<le> 1 / 2"
      by (rule round_half_even_error)
    show "0 \<le> ?u" using u by linarith
  qed
  finally show ?thesis by simp
qed simp

lemma ulp_mono:
  assumes "0 < x" and "x \<le> y"
  shows "ulp x \<le> ulp y"
  using binade_mono [OF assms] by (simp add: ulp_def)

lemma round_double_succ:
  assumes d: "round_double P = P" and pos: "0 < P"
  shows "round_double (P + ulp P) = P + ulp P"
proof -
  let ?b = "binade P"
  let ?u = "2 powr of_int (?b - 52) :: real"
  let ?m = "round_half_even (P / ?u)"
  have u: "0 < ?u" by simp
  have uu: "ulp P = ?u" by (simp add: ulp_def)
  from pos have nz: "P \<noteq> 0" and ab: "\<bar>P\<bar> = P" by simp_all
  have P: "P = of_int ?m * ?u"
    using round_double_pos [OF pos] d by simp
  have lo: "2 powr of_int ?b \<le> P" using binade_bounds(1) [OF nz] ab by simp
  have hi: "P < 2 powr (of_int ?b + 1)" using binade_bounds(2) [OF nz] ab by simp
  have "of_int ?m * ?u < 2 ^ 53 * ?u" using hi P by (simp only: ulp_times) 
  then have "of_int ?m < (2::real) ^ 53" using u by (simp only: mult_less_cancel_right_pos)
  then have m: "?m < 2 ^ 53"
    by (metis of_int_less_iff of_int_numeral of_int_power)
  have S: "P + ?u = of_int (?m + 1) * ?u"
    using P by (simp add: algebra_simps)
  show ?thesis
  proof (cases "?m + 1 = 2 ^ 53")
    case True
    then have "P + ?u = 2 ^ 53 * ?u" using S by simp
    then have v2: "P + ?u = 2 powr (of_int ?b + 1)" by (simp only: ulp_times)
    have "round_double (P + ?u) = P + ?u"
    proof (rule round_double_exact [where e = "?b + 1" and m = "2 ^ 52"])
      show "2 powr of_int (?b + 1) \<le> \<bar>P + ?u\<bar>" using v2 by simp
      show "\<bar>P + ?u\<bar> < 2 powr (of_int (?b + 1) + 1)" using v2 by simp
      have "2 ^ 52 * 2 powr of_int (?b + 1 - 52) = (2::real) powr of_int (?b + 1)"
        by (rule ulp_times)
      then have "P + ?u = 2 ^ 52 * 2 powr of_int (?b + 1 - 52)" using v2 by simp
      then show "(P + ?u) / 2 powr of_int (?b + 1 - 52) = of_int (2 ^ 52)" by simp
    qed
    then show ?thesis by (simp only: uu)
  next
    case False
    with m have "?m + 1 < 2 ^ 53" by linarith
    then have "of_int (?m + 1) < (2::real) ^ 53"
      by (metis of_int_less_iff of_int_numeral of_int_power)
    then have "of_int (?m + 1) * ?u < 2 ^ 53 * ?u" using u by (simp only: mult_less_cancel_right_pos)
    then have lt: "P + ?u < 2 powr (of_int ?b + 1)" by (simp only: ulp_times S)
    have "round_double (P + ?u) = P + ?u"
    proof (rule round_double_exact [where e = ?b and m = "?m + 1"])
      have "0 < P + ?u" using pos u by linarith
      then have "\<bar>P + ?u\<bar> = P + ?u" by (simp only: abs_of_pos)
      then show "2 powr of_int ?b \<le> \<bar>P + ?u\<bar>" using lo u by linarith
      have "0 < P + ?u" using pos u by linarith
      then have "\<bar>P + ?u\<bar> = P + ?u" by (simp only: abs_of_pos)
      then show "\<bar>P + ?u\<bar> < 2 powr (of_int ?b + 1)" using lt by linarith
      show "(P + ?u) / ?u = of_int (?m + 1)" using S u by simp
    qed
    then show ?thesis by (simp only: uu)
  qed
qed

lemma round_double_pos_iff [simp]: "0 < round_double x \<longleftrightarrow> 0 < x"
proof
  assume "0 < round_double x"
  show "0 < x"
  proof (rule ccontr)
    assume "\<not> 0 < x"
    then have "x \<le> 0" by simp
    then have "round_double x \<le> round_double 0" by (rule round_double_mono)
    with \<open>0 < round_double x\<close> show False by simp
  qed
next
  assume x: "0 < x"
  have "0 < (2::real) powr of_int (binade x)" by simp
  with round_double_bounds(1) [OF x] show "0 < round_double x" by linarith
qed

lemma repayment_bound:
  assumes dP: "round_double P = P" and r0: "0 \<le> r" and pos: "0 < amt"
      and le: "amt \<le> round_double (P - r)"
  shows "round_double (r + amt) \<le> P + ulp P"
proof -
  from pos le have "0 < round_double (P - r)" by linarith
  then have x: "0 < P - r" by (simp only: round_double_pos_iff)
  with r0 have P: "0 < P" and xP: "P - r \<le> P" by linarith+
  have "round_double (P - r) - (P - r) \<le> ulp (P - r) / 2"
    using round_double_error [of "P - r"] by linarith
  also have "\<dots> \<le> ulp P / 2" using ulp_mono [OF x xP] by simp
  also have "\<dots> \<le> ulp P" using ulp_pos [of P] by linarith
  finally have "r + amt \<le> P + ulp P" using le by linarith
  then have "round_double (r + amt) \<le> round_double (P + ulp P)" by (rule round_double_mono)
  then show ?thesis by (simp only: round_double_succ [OF dP P])
qed

lemma round_double_neg_iff [simp]: "round_double x < 0 \<longleftrightarrow> x < 0"
  using round_double_pos_iff [of "- x"] by simp

lemma round_double_nonneg_iff [simp]: "0 \<le> round_double x \<longleftrightarrow> 0 \<le> x"
  using round_double_neg_iff [of x] by linarith

lemma round_double_nonpos_iff [simp]: "round_double x \<le> 0 \<longleftrightarrow> x \<le> 0"
  using round_double_pos_iff [of x] by linarith

text \<open>Decimal constants of the code and of the examples, as doubles.\<close>

lemma double_0_01 [simp]: "round_double (1 / 100) = 5764607523034235 / 2 ^ 59"
proof -
  have "round_double (1 / 100) =
          of_int (round_half_even ((1 / 100) / 2 powr of_int (- 7 - 52))) * 2 powr of_int (- 7 - 52)"
    by (rule round_double_eval) (simp_all add: powr_minus_divide)
  also have "\<dots> = 5764607523034235 / 2 ^ 59"
    by (simp add: round_half_even_def powr_minus_divide Let_def)
  finally show ?thesis .
qed

lemma double_999999_99 [simp]: "round_double (99999999 / 100) = 8589934506100654 / 2 ^ 33"
proof -
  have "round_double (99999999 / 100) =
          of_int (round_half_even ((99999999 / 100) / 2 powr of_int (19 - 52))) * 2 powr of_int (19 - 52)"
    by (rule round_double_eval) (simp_all add: powr_minus_divide)
  also have "\<dots> = 8589934506100654 / 2 ^ 33"
    by (simp add: round_half_even_def powr_minus_divide Let_def)
  finally show ?thesis .
qed

subsection \<open>Table updates\<close>

lemma find_update_where:
  assumes "\<And>u. user_id (f u) = user_id u"
  shows "find (\<lambda>u. user_id u = uid) (update_where P f us) =
         map_option (\<lambda>u. if P u then f u else u) (find (\<lambda>u. user_id u = uid) us)"
  using assms by (induction us) (auto simp: update_where_def)

lemma map_user_id_update_where:
  assumes "\<And>u. user_id (f u) = user_id u"
  shows "map user_id (update_where P f us) = map user_id us"
  using assms by (induction us) (auto simp: update_where_def)

lemma user_id_set_col [simp]: "user_id (set_col k v u) = user_id u"
  by (cases k) simp_all

lemma get_col_set_col [simp]: "get_col k (set_col k v u) = v"
  by (cases k) simp_all

lemma update_where_absent:
  "\<forall>u \<in> set us. \<not> P u \<Longrightarrow> update_where P f us = us"
  by (induction us) (auto simp: update_where_def)

lemma sum_update_where:
  fixes g :: "user \<Rightarrow> real"
  assumes "distinct (map user_id us)"
  shows "sum_list (map g (update_where (\<lambda>u. user_id u = a \<and> Q u) f us)) =
         sum_list (map g us) +
           (case find (\<lambda>u. user_id u = a) us of
              None \<Rightarrow> 0
            | Some u \<Rightarrow> if Q u then g (f u) - g u else 0)"
  using assms
proof (induction us)
  case Nil
  then show ?case by (simp add: update_where_def)
next
  case (Cons u us)
  show ?case
  proof (cases "user_id u = a")
    case True
    with Cons.prems have "\<forall>v \<in> set us. \<not> (user_id v = a \<and> Q v)"
      by (force simp: image_iff)
    then have "update_where (\<lambda>u. user_id u = a \<and> Q u) f us = us"
      by (rule update_where_absent)
    then have "update_where (\<lambda>u. user_id u = a \<and> Q u) f (u # us) = (if Q u then f u else u) # us"
      using True by (simp add: update_where_def)
    with True show ?thesis by simp
  next
    case False
    with Cons show ?thesis by (simp add: update_where_def)
  qed
qed

lemma sum_update_where_id:
  fixes g :: "user \<Rightarrow> real"
  assumes "distinct (map user_id us)"
  shows "sum_list (map g (update_where (\<lambda>u. user_id u = a) f us)) =
         sum_list (map g us) +
           (case find (\<lambda>u. user_id u = a) us of
              None \<Rightarrow> 0
            | Some u \<Rightarrow> g (f u) - g u)"
  using sum_update_where [OF assms, of g a "\<lambda>_. True" f] by (simp split: option.splits)

lemma rowcount_zero: "rowcount P rows = 0 \<longleftrightarrow> (\<forall>r \<in> set rows. \<not> P r)"
  by (simp add: rowcount_def filter_empty_conv)

lemma find_distinct_unique:
  assumes "distinct (map user_id us)" "u \<in> set us"
  shows "find (\<lambda>v. user_id v = user_id u) us = Some u"
  using assms by (induction us) (auto simp: rev_image_eqI)

lemma find_Some_mem: "find P xs = Some x \<Longrightarrow> x \<in> set xs \<and> P x"
  by (induction xs) (auto split: if_splits)

lemma find_None_id: "find (\<lambda>u. user_id u = a) us = None \<longleftrightarrow> a \<notin> set (map user_id us)"
  by (induction us) auto

lemma pay_transaction_success:
  assumes pk: "distinct (map user_id (users d))"
      and ok: "pay_transaction a b amt c d = (Transferred amt' c', d')"
      and ne: "a \<noteq> b"
  shows "amt' = amt \<and> c' = c \<and>
         (\<exists>k ba bb. users_column c = Some k \<and>
            wallet d a k = Some ba \<and> wallet d b k = Some bb \<and>
            wallet d' a k = Some (round_double (ba - amt)) \<and>
            wallet d' b k = Some (round_double (bb + amt)) \<and>
            total_balance d' k - total_balance d k =
              (round_double (ba - amt) - (ba - amt)) + (round_double (bb + amt) - (bb + amt))) \<and>
         transactions d' = transactions d @ [send_row a b amt c, receive_row a b amt c]"
proof -
  from ok obtain k where k: "users_column c = Some k"
    by (auto simp: pay_transaction_def split: option.splits)
  define debit where "debit = (\<lambda>u. user_id u = a \<and> get_col k u \<ge> amt)"
  define us1 where
    "us1 = update_where debit (\<lambda>u. set_col k (round_double (get_col k u - amt)) u) (users d)"
  define credit where "credit = (\<lambda>u::user. user_id u = b)"
  define us2 where
    "us2 = update_where credit (\<lambda>u. set_col k (round_double (get_col k u + amt)) u) us1"
  from ok k have rc1: "rowcount debit (users d) \<noteq> 0"
    by (auto simp: pay_transaction_def Let_def debit_def split: if_splits)
  from ok k rc1 have rc2: "rowcount credit us1 \<noteq> 0"
    by (auto simp: pay_transaction_def Let_def debit_def credit_def us1_def split: if_splits)
  from ok k rc1 rc2 have res: "amt' = amt" "c' = c"
    "d' = d\<lparr>users := us2, transactions := transactions d @ [send_row a b amt c, receive_row a b amt c]\<rparr>"
    by (auto simp: pay_transaction_def Let_def debit_def credit_def us1_def us2_def
          insert_transaction_def split: if_splits option.splits)
  from rc1 obtain ua where ua: "ua \<in> set (users d)" "user_id ua = a" "get_col k ua \<ge> amt"
    by (auto simp: rowcount_zero debit_def)
  then have fa: "find (\<lambda>u. user_id u = a) (users d) = Some ua"
    using find_distinct_unique [OF pk] by blast
  from rc2 obtain ub1 where "ub1 \<in> set us1" "user_id ub1 = b"
    by (auto simp: rowcount_zero credit_def)
  then have "b \<in> set (map user_id us1)" by force
  then have "b \<in> set (map user_id (users d))"
    by (simp add: us1_def map_user_id_update_where)
  then obtain ub where fb: "find (\<lambda>u. user_id u = b) (users d) = Some ub"
    using find_None_id [of b "users d"] by (cases "find (\<lambda>u. user_id u = b) (users d)") auto
  have idb: "user_id ub = b" using find_Some_mem [OF fb] by simp
  have wa: "wallet d a k = Some (get_col k ua)" by (simp add: wallet_def fetch_user_def fa)
  have wb: "wallet d b k = Some (get_col k ub)" by (simp add: wallet_def fetch_user_def fb)
  have f1a: "find (\<lambda>u. user_id u = a) us1 =
               Some (set_col k (round_double (get_col k ua - amt)) ua)"
    unfolding us1_def by (subst find_update_where) (simp_all add: fa debit_def ua)
  have f1b: "find (\<lambda>u. user_id u = b) us1 = Some ub"
    unfolding us1_def using ne idb by (subst find_update_where) (simp_all add: fb debit_def)
  have wa': "wallet d' a k = Some (round_double (get_col k ua - amt))"
    unfolding wallet_def fetch_user_def res(3) us2_def
    using ne by (simp add: find_update_where f1a credit_def ua)
  have wb': "wallet d' b k = Some (round_double (get_col k ub + amt))"
    unfolding wallet_def fetch_user_def res(3) us2_def
    by (simp add: find_update_where f1b credit_def idb)
  have pk1: "distinct (map user_id us1)"
    by (simp add: us1_def map_user_id_update_where pk)
  have s1: "sum_list (map (get_col k) us1) =
              sum_list (map (get_col k) (users d)) + (round_double (get_col k ua - amt) - get_col k ua)"
    unfolding us1_def debit_def
    by (subst sum_update_where [OF pk]) (simp add: fa ua)
  have s2: "sum_list (map (get_col k) us2) =
              sum_list (map (get_col k) us1) + (round_double (get_col k ub + amt) - get_col k ub)"
    unfolding us2_def credit_def
    by (subst sum_update_where_id [OF pk1]) (simp add: f1b)
  have tot: "total_balance d' k - total_balance d k =
               (round_double (get_col k ua - amt) - (get_col k ua - amt)) +
               (round_double (get_col k ub + amt) - (get_col k ub + amt))"
    by (simp add: total_balance_def res(3) s1 s2)
  show ?thesis using res k wa wb wa' wb' tot by simp
qed

subsection \<open>Wallet transfer\<close>

lemma transfer_money_validated:
  assumes "passes_validation tok request a b amt c"
  shows "transfer_money tok request d = pay_transaction a b amt c d"
  using assms
  by (auto simp: passes_validation_def transfer_money_def split: option.splits)

lemma transfer_money_success:
  assumes pk: "distinct (map user_id (users d))"
      and req: "json request = Some data" "from_user data = Some a" "to_user data = Some b"
               "to_float (amount data) = Some amt" "body_currency data = c"
      and ok: "transfer_money tok request d = (Transferred amt' c', d')"
  shows "amt' = amt \<and> c' = c \<and>
         (\<exists>k ba bb. users_column c = Some k \<and>
            wallet d a k = Some ba \<and> wallet d b k = Some bb \<and>
            wallet d' a k = Some (round_double (ba - amt)) \<and>
            wallet d' b k = Some (round_double (bb + amt)) \<and>
            total_balance d' k - total_balance d k =
              (round_double (ba - amt) - (ba - amt)) + (round_double (bb + amt) - (bb + amt))) \<and>
         transactions d' = transactions d @ [send_row a b amt c, receive_row a b amt c]"
proof -
  from ok req have ne: "a \<noteq> b"
    by (auto simp: transfer_money_def split: if_splits)
  from ok req have "pay_transaction a b amt c d = (Transferred amt' c', d')"
    by (auto simp: transfer_money_def split: if_splits)
  from pay_transaction_success [OF pk this ne] show ?thesis .
qed

lemma rounding_db_transfer:
  "transfer_money ''secret'' (demo_request bob (1 / 100)) rounding_db =
     (Transferred (round_double (1 / 100)) ''gold_dinars'',
      rounding_db\<lparr>users :=
          [\<lparr>user_id = alice, username = ''A'', gold_dinars = 7036170730324623 / 2 ^ 46,
            silver_dirhams = 500\<rparr>,
           \<lparr>user_id = bob, username = ''B'', gold_dinars = 8796268944068444 / 2 ^ 44,
            silver_dirhams = 500\<rparr>],
        transactions :=
          [send_row alice bob (round_double (1 / 100)) ''gold_dinars'',
           receive_row alice bob (round_double (1 / 100)) ''gold_dinars'']\<rparr>)"
proof -
  have sub: "round_double (100 - 5764607523034235 / 2 ^ 59) = 7036170730324623 / 2 ^ 46"
  proof -
    have "round_double (100 - 5764607523034235 / 2 ^ 59) =
            of_int (round_half_even ((100 - 5764607523034235 / 2 ^ 59) / 2 powr of_int (6 - 52))) *
            2 powr of_int (6 - 52)"
      by (rule round_double_eval) (simp_all add: powr_minus_divide)
    also have "\<dots> = 7036170730324623 / 2 ^ 46"
      by (simp add: round_half_even_def powr_minus_divide Let_def)
    finally show ?thesis .
  qed
  have add: "round_double (500 + 5764607523034235 / 2 ^ 59) = 8796268944068444 / 2 ^ 44"
  proof -
    have "round_double (500 + 5764607523034235 / 2 ^ 59) =
            of_int (round_half_even ((500 + 5764607523034235 / 2 ^ 59) / 2 powr of_int (8 - 52))) *
            2 powr of_int (8 - 52)"
      by (rule round_double_eval) (simp_all add: powr_minus_divide)
    also have "\<dots> = 8796268944068444 / 2 ^ 44"
      by (simp add: round_half_even_def powr_minus_divide Let_def)
    finally show ?thesis .
  qed
  have sub': "round_double (57640310622819314565 / 576460752303423488) =
                7036170730324623 / 70368744177664"
    using sub by simp
  have add': "round_double (288236140759234778235 / 576460752303423488) =
                2199067236017111 / 4398046511104"
    using add by simp
  show ?thesis
    by (simp add: transfer_money_def pay_transaction_def demo_request_def rounding_db_def
          verify_api_token_def validate_user_id_def isdigit_def validate_amount_def
          body_currency_def users_column_def lower_def lower_char_def rowcount_def
          update_where_def insert_transaction_def alice_def bob_def Let_def
          send_row_def receive_row_def sub' add')
qed

text \<open>
  Alice (100 gold) pays Bob (500 gold) the amount \<^verbatim>\<open>0.01\<close>. The transfer succeeds; Alice
  then holds the double \<^verbatim>\<open>99.99\<close> and Bob the double \<^verbatim>\<open>500.01\<close>. Neither balance has
  changed by the transferred amount (the double \<^verbatim>\<open>0.01\<close>), and the sum of the gold
  column over all users has dropped by \<open>1 / 2 ^ 46\<close>.
\<close>

theorem transfer_money_not_exact:
  "fst (transfer_money ''secret'' (demo_request bob (1 / 100)) rounding_db) =
     Transferred (round_double (1 / 100)) ''gold_dinars'' \<and>
   wallet rounding_db alice Gold = Some 100 \<and>
   wallet rounding_db bob Gold = Some 500 \<and>
   wallet (snd (transfer_money ''secret'' (demo_request bob (1 / 100)) rounding_db)) alice Gold =
     Some (7036170730324623 / 2 ^ 46) \<and>
   wallet (snd (transfer_money ''secret'' (demo_request bob (1 / 100)) rounding_db)) bob Gold =
     Some (8796268944068444 / 2 ^ 44) \<and>
   100 - 7036170730324623 / 2 ^ 46 \<noteq> round_double (1 / 100) \<and>
   8796268944068444 / 2 ^ 44 - 500 \<noteq> round_double (1 / 100) \<and>
   total_balance (snd (transfer_money ''secret'' (demo_request bob (1 / 100)) rounding_db)) Gold -
     total_balance rounding_db Gold = - (1 / 2 ^ 46)"
  unfolding rounding_db_transfer
  by (simp add: wallet_def fetch_user_def total_balance_def rounding_db_def alice_def bob_def)

text \<open>
  Claim C1, with binary64 arithmetic. A successful \<^verbatim>\<open>POST /api/pay\<close> of \<open>amt\<close> in currency
  \<open>c\<close> from \<open>a\<close> to \<open>b\<close> sets the balance of \<open>a\<close> in \<open>c\<close> to the double nearest to its old
  balance minus \<open>amt\<close> and that of \<open>b\<close> to the double nearest to its old balance plus
  \<open>amt\<close>. So the balance of \<open>a\<close> falls by \<open>amt\<close> and that of \<open>b\<close> rises by \<open>amt\<close>, each up
  to half a unit in the last place of the new balance, and the sum of that column over
  all users changes by at most the two rounding errors. Exactly two rows are appended to
  \<^verbatim>\<open>transactions\<close>: a \<^verbatim>\<open>transfer_send\<close> row of \<open>a\<close> with partner \<open>b\<close> and a
  \<^verbatim>\<open>transfer_receive\<close> row of \<open>b\<close> with partner \<open>a\<close>, both of amount \<open>amt\<close>. The users
  table satisfies its primary key.
\<close>

theorem transfer_money_conservation:
  assumes pk: "distinct (map user_id (users d))"
      and req: "json request = Some data" "from_user data = Some a" "to_user data = Some b"
               "to_float (amount data) = Some amt" "body_currency data = c"
      and ok: "transfer_money tok request d = (Transferred amt' c', d')"
  shows "amt' = amt \<and> c' = c \<and>
         (\<exists>k ba bb na nb. users_column c = Some k \<and>
            wallet d a k = Some ba \<and> wallet d b k = Some bb \<and>
            wallet d' a k = Some na \<and> wallet d' b k = Some nb \<and>
            na = round_double (ba - amt) \<and> nb = round_double (bb + amt) \<and>
            \<bar>(ba - na) - amt\<bar> \<le> ulp (ba - amt) / 2 \<and>
            \<bar>(nb - bb) - amt\<bar> \<le> ulp (bb + amt) / 2 \<and>
            \<bar>total_balance d' k - total_balance d k\<bar> \<le> ulp (ba - amt) / 2 + ulp (bb + amt) / 2) \<and>
         transactions d' = transactions d @ [send_row a b amt c, receive_row a b amt c]"
proof -
  from transfer_money_success [OF assms]
  obtain k ba bb where h: "amt' = amt" "c' = c" "users_column c = Some k"
      "wallet d a k = Some ba" "wallet d b k = Some bb"
      "wallet d' a k = Some (round_double (ba - amt))"
      "wallet d' b k = Some (round_double (bb + amt))"
      "total_balance d' k - total_balance d k =
         (round_double (ba - amt) - (ba - amt)) + (round_double (bb + amt) - (bb + amt))"
      "transactions d' = transactions d @ [send_row a b amt c, receive_row a b amt c]"
    by blast
  have ea: "\<bar>round_double (ba - amt) - (ba - amt)\<bar> \<le> ulp (ba - amt) / 2"
    by (rule round_double_error)
  have eb: "\<bar>round_double (bb + amt) - (bb + amt)\<bar> \<le> ulp (bb + amt) / 2"
    by (rule round_double_error)
  have 1: "\<bar>(ba - round_double (ba - amt)) - amt\<bar> \<le> ulp (ba - amt) / 2"
    using ea by linarith
  have 2: "\<bar>(round_double (bb + amt) - bb) - amt\<bar> \<le> ulp (bb + amt) / 2"
    using eb by linarith
  have 3: "\<bar>total_balance d' k - total_balance d k\<bar> \<le> ulp (ba - amt) / 2 + ulp (bb + amt) / 2"
    unfolding h(8) using ea eb by linarith
  from h 1 2 3 show ?thesis by simp
qed

text \<open>Alice (100 gold) pays Bob (0 gold) 30 gold dinars.\<close>

theorem transfer_money_conservation_witness:
  "distinct (map user_id (users demo_db)) \<and>
   (\<exists>d'. transfer_money ''secret'' (demo_request bob 30) demo_db =
           (Transferred 30 ''gold_dinars'', d') \<and>
         wallet demo_db alice Gold = Some 100 \<and> wallet demo_db bob Gold = Some 0 \<and>
         wallet d' alice Gold = Some 70 \<and> wallet d' bob Gold = Some 30 \<and>
         total_balance d' Gold = total_balance demo_db Gold \<and>
         transactions d' = [send_row alice bob 30 ''gold_dinars'',
                            receive_row alice bob 30 ''gold_dinars''])"
proof -
  have pk: "distinct (map user_id (users demo_db))"
    by (simp add: demo_db_def alice_def bob_def)
  obtain r d' where run: "transfer_money ''secret'' (demo_request bob 30) demo_db = (r, d')"
    by (cases "transfer_money ''secret'' (demo_request bob 30) demo_db")
  have r: "r = Transferred 30 ''gold_dinars''"
    using run
    by (simp add: transfer_money_def pay_transaction_def demo_request_def demo_db_def
          verify_api_token_def validate_user_id_def isdigit_def validate_amount_def
          body_currency_def users_column_def lower_def lower_char_def rowcount_def
          update_where_def insert_transaction_def alice_def bob_def Let_def
          send_row_def receive_row_def)
  have col: "users_column ''gold_dinars'' = Some Gold"
    by (simp add: users_column_def lower_def lower_char_def)
  have w: "wallet demo_db alice Gold = Some 100" "wallet demo_db bob Gold = Some 0"
    by (simp_all add: wallet_def fetch_user_def demo_db_def alice_def bob_def)
  have tx: "transactions demo_db = []" by (simp add: demo_db_def)
  have tot: "total_balance d' Gold = total_balance demo_db Gold"
    using run
    by (simp add: transfer_money_def pay_transaction_def demo_request_def demo_db_def
          verify_api_token_def validate_user_id_def isdigit_def validate_amount_def
          body_currency_def users_column_def lower_def lower_char_def rowcount_def
          update_where_def insert_transaction_def alice_def bob_def Let_def
          send_row_def receive_row_def total_balance_def)
      (auto simp: total_balance_def)
  from transfer_money_conservation [OF pk _ _ _ _ _ run [unfolded r],
      of "\<lparr>from_user = Some alice, to_user = Some bob, amount = Number 30,
           currency = Some ''gold_dinars''\<rparr>" alice bob 30 "''gold_dinars''"]
  show ?thesis using pk run r w col tx tot
    by (auto simp: demo_request_def body_currency_def)
qed

text \<open>
  Claim C2. A request that passes the handler's validation and asks for more than the
  sender holds in the requested currency is answered with the insufficient-funds error,
  and the database (all balances, all transaction rows) is the one before the call.
\<close>

theorem transfer_money_insufficient_funds:
  assumes pk: "distinct (map user_id (users d))"
      and req: "passes_validation tok request a b amt c"
      and col: "users_column c = Some k"
      and bal: "wallet d a k = Some bal" "bal < amt"
  shows "transfer_money tok request d = (Insufficient_Funds_Or_User_Not_Found, d)"
proof -
  from bal obtain ua where fa: "find (\<lambda>u. user_id u = a) (users d) = Some ua"
      and lt: "get_col k ua < amt"
    by (auto simp: wallet_def fetch_user_def)
  have "\<not> (user_id u = a \<and> get_col k u \<ge> amt)" if "u \<in> set (users d)" for u
  proof
    assume h: "user_id u = a \<and> get_col k u \<ge> amt"
    with find_distinct_unique [OF pk that] fa have "u = ua" by simp
    with h lt show False by simp
  qed
  then have "rowcount (\<lambda>u. user_id u = a \<and> get_col k u \<ge> amt) (users d) = 0"
    by (simp add: rowcount_zero)
  then have "pay_transaction a b amt c d = (Insufficient_Funds_Or_User_Not_Found, d)"
    by (simp add: pay_transaction_def col Let_def)
  with transfer_money_validated [OF req] show ?thesis by simp
qed

text \<open>Alice holds 100 gold and asks to pay 130.\<close>

theorem transfer_money_insufficient_funds_witness:
  "distinct (map user_id (users demo_db)) \<and>
   passes_validation ''secret'' (demo_request bob 130) alice bob 130 ''gold_dinars'' \<and>
   users_column ''gold_dinars'' = Some Gold \<and>
   wallet demo_db alice Gold = Some 100 \<and> (100::real) < 130 \<and>
   transfer_money ''secret'' (demo_request bob 130) demo_db =
     (Insufficient_Funds_Or_User_Not_Found, demo_db)"
proof -
  have pk: "distinct (map user_id (users demo_db))"
    by (simp add: demo_db_def alice_def bob_def)
  have req: "passes_validation ''secret'' (demo_request bob 130) alice bob 130 ''gold_dinars''"
    by (simp add: passes_validation_def demo_request_def verify_api_token_def
          validate_user_id_def isdigit_def validate_amount_def body_currency_def
          alice_def bob_def)
  have col: "users_column ''gold_dinars'' = Some Gold"
    by (simp add: users_column_def lower_def lower_char_def)
  have w: "wallet demo_db alice Gold = Some 100"
    by (simp add: wallet_def fetch_user_def demo_db_def alice_def bob_def)
  have lt: "(100::real) < 130" by simp
  from transfer_money_insufficient_funds [OF pk req col w lt]
  show ?thesis using pk req col w by simp
qed

text \<open>
  Claim C4. When the debit of \<^verbatim>\<open>/api/pay\<close> succeeds and the recipient row does not exist,
  the handler rolls back: an error is returned and the database, the sender's balance
  and the transaction table included, is the one before the call.
\<close>

theorem transfer_money_recipient_missing:
  assumes req: "passes_validation tok request a b amt c"
      and col: "users_column c = Some k"
      and bal: "wallet d a k = Some bal" "amt \<le> bal"
      and nob: "fetch_user d b = None"
  shows "transfer_money tok request d = (Recipient_Not_Found, d)"
proof -
  from bal obtain ua where fa: "find (\<lambda>u. user_id u = a) (users d) = Some ua"
      and ge: "get_col k ua \<ge> amt"
    by (auto simp: wallet_def fetch_user_def)
  from find_Some_mem [OF fa] ge
  have rc1: "rowcount (\<lambda>u. user_id u = a \<and> get_col k u \<ge> amt) (users d) \<noteq> 0"
    by (auto simp: rowcount_zero)
  from nob have "b \<notin> set (map user_id (users d))"
    by (simp add: fetch_user_def find_None_id)
  then have "b \<notin> set (map user_id (update_where (\<lambda>u. user_id u = a \<and> get_col k u \<ge> amt)
                 (\<lambda>u. set_col k (round_double (get_col k u - amt)) u) (users d)))"
    by (simp add: map_user_id_update_where)
  then have rc2: "rowcount (\<lambda>u. user_id u = b) (update_where (\<lambda>u. user_id u = a \<and> get_col k u \<ge> amt)
                 (\<lambda>u. set_col k (round_double (get_col k u - amt)) u) (users d)) = 0"
    by (auto simp: rowcount_zero)
  from rc1 rc2 have "pay_transaction a b amt c d = (Recipient_Not_Found, d)"
    by (simp add: pay_transaction_def col Let_def)
  with transfer_money_validated [OF req] show ?thesis by simp
qed

text \<open>Alice pays 30 gold to Carol, who has no row.\<close>

theorem transfer_money_recipient_missing_witness:
  "passes_validation ''secret'' (demo_request carol 30) alice carol 30 ''gold_dinars'' \<and>
   users_column ''gold_dinars'' = Some Gold \<and>
   wallet demo_db alice Gold = Some 100 \<and> (30::real) \<le> 100 \<and>
   fetch_user demo_db carol = None \<and>
   transfer_money ''secret'' (demo_request carol 30) demo_db = (Recipient_Not_Found, demo_db)"
proof -
  have req: "passes_validation ''secret'' (demo_request carol 30) alice carol 30 ''gold_dinars''"
    by (simp add: passes_validation_def demo_request_def verify_api_token_def
          validate_user_id_def isdigit_def validate_amount_def body_currency_def
          alice_def carol_def)
  have col: "users_column ''gold_dinars'' = Some Gold"
    by (simp add: users_column_def lower_def lower_char_def)
  have w: "wallet demo_db alice Gold = Some 100"
    by (simp add: wallet_def fetch_user_def demo_db_def alice_def bob_def)
  have le: "(30::real) \<le> 100" by simp
  have nob: "fetch_user demo_db carol = None"
    by (simp add: fetch_user_def demo_db_def alice_def bob_def carol_def)
  from transfer_money_recipient_missing [OF req col w le nob]
  show ?thesis using req col w nob by simp
qed

subsection \<open>Bank accounts: profit-share ratio and account opening\<close>

lemma insert_bank_ledger_zero:
  "bl_amount row = 0 \<Longrightarrow> insert_bank_ledger fk row d = None"
  by (simp add: insert_bank_ledger_def)

lemma create_bank_account_inserts_fail:
  "create_bank_account_inserts owner institution_id atype c ratio created_by number d = None"
  by (simp add: create_bank_account_inserts_def Let_def insert_bank_ledger_zero
        split: option.splits)

lemma create_bank_account_cases:
  "create_bank_account draws owner institution_id atype c ratio cb d =
     (if atype \<notin> set [''wadiah'', ''mudarabah''] then (Invalid_Account_Type, d)
      else if c \<notin> set [''gold_dinars'', ''silver_dirhams''] then (Invalid_Account_Currency, d)
      else if atype = ''mudarabah'' \<and> (case ratio of None \<Rightarrow> True | Some r \<Rightarrow> r < 0 \<or> r > 1)
      then (Mudarabah_Requires_Ratio, d)
      else if atype \<noteq> ''mudarabah'' \<and> ratio \<noteq> None then (Wadiah_Cannot_Have_Profit_Sharing, d)
      else if get_user_account_count owner institution_id d \<ge> 5 then (Maximum_Accounts_Reached, d)
      else if \<not> list_ex (\<lambda>b. business_id b = institution_id \<and> business_type b = ''islamic_finance'' \<and>
                   biz_status b = ''active'' \<and> license_code b \<noteq> None) (businesses d)
      then (Institution_Not_Found, d)
      else (Database_Error_During_Creation, d))"
proof (cases "find (\<lambda>b. business_id b = institution_id \<and> business_type b = ''islamic_finance'' \<and>
                   biz_status b = ''active'' \<and> license_code b \<noteq> None) (businesses d)")
  case None
  then have "\<not> list_ex (\<lambda>b. business_id b = institution_id \<and> business_type b = ''islamic_finance'' \<and>
                   biz_status b = ''active'' \<and> license_code b \<noteq> None) (businesses d)"
    unfolding find_None_iff list_ex_iff by blast
  with None show ?thesis
    unfolding create_bank_account_def by (simp del: not_None_eq)
next
  case (Some b)
  then have "list_ex (\<lambda>b. business_id b = institution_id \<and> business_type b = ''islamic_finance'' \<and>
                   biz_status b = ''active'' \<and> license_code b \<noteq> None) (businesses d)"
    unfolding find_Some_iff list_ex_iff by (metis nth_mem)
  with Some show ?thesis
    unfolding create_bank_account_def create_bank_account_inserts_fail
    by (simp del: not_None_eq split: option.splits)
qed

text \<open>
  Claim C10. Under the schema of \<^verbatim>\<open>init_database\<close> every call of
  \<^verbatim>\<open>create_bank_account\<close> fails and leaves the database as it was: no reply is the
  success reply. A request that passes every check reaches the inserts, whose last
  statement logs the opening in \<^verbatim>\<open>bank_ledger\<close> with amount \<^verbatim>\<open>0\<close> against
  \<^verbatim>\<open>CHECK (amount > 0)\<close>; nothing is committed and the caller gets the generic
  database error.
\<close>

theorem create_bank_account_never_commits:
  "snd (create_bank_account draws owner institution_id atype c ratio cb d) = d \<and>
   (\<forall>n number. fst (create_bank_account draws owner institution_id atype c ratio cb d)
        \<noteq> Account_Opened n number) \<and>
   (opening_request_valid owner institution_id atype c ratio d \<longrightarrow>
      fst (create_bank_account draws owner institution_id atype c ratio cb d)
        = Database_Error_During_Creation)"
  unfolding create_bank_account_cases opening_request_valid_def
  by (auto split: option.splits)

text \<open>
  Bob opens a wadiah account in silver at the finance business of the example.
\<close>

theorem create_bank_account_never_commits_witness:
  "opening_request_valid bob 1 ''wadiah'' ''silver_dirhams'' None demo_bank_db \<and>
   create_bank_account [''IBK-CCCCCCCC''] bob 1 ''wadiah'' ''silver_dirhams'' None (Some bob) demo_bank_db
     = (Database_Error_During_Creation, demo_bank_db)"
proof -
  have v: "opening_request_valid bob 1 ''wadiah'' ''silver_dirhams'' None demo_bank_db"
    by (simp add: opening_request_valid_def demo_bank_db_def get_user_account_count_def
          alice_def bob_def)
  from create_bank_account_never_commits
         [of "[''IBK-CCCCCCCC'']" bob 1 "''wadiah''" "''silver_dirhams''" None "Some bob" demo_bank_db]
  show ?thesis using v by (simp add: prod_eq_iff)
qed

lemma bank_accounts_insert_transaction:
  "insert_transaction t d = Some d' \<Longrightarrow> bank_accounts d' = bank_accounts d"
  by (auto simp: insert_transaction_def split: if_splits)

lemma bank_accounts_insert_bank_ledger:
  "insert_bank_ledger fk r d = Some d' \<Longrightarrow> bank_accounts d' = bank_accounts d"
  by (auto simp: insert_bank_ledger_def split: if_splits)

lemma bank_accounts_py_set_balance [simp]:
  "bank_accounts (py_set_balance c uid v d) = bank_accounts d"
  by (simp add: py_set_balance_def)

lemma bank_accounts_get_user_account:
  "bank_accounts (snd (get_user_account uid name d)) = bank_accounts d"
  by (simp add: get_user_account_def Let_def split: option.splits)

lemma ratio_rule_cong:
  "bank_accounts d' = bank_accounts d \<Longrightarrow> ratio_rule d' = ratio_rule d"
  by (simp add: ratio_rule_def)

lemma list_all_update_where:
  "(\<And>r. P (f r) = P r) \<Longrightarrow> list_all P (update_where Q f rows) = list_all P rows"
  by (induction rows) (auto simp: update_where_def)

lemma ratio_rule_update_bank_balance:
  assumes "update_bank_balance aid v d = Some d'"
  shows "ratio_rule d' = ratio_rule d"
proof -
  from assms have "bank_accounts d' =
      update_where (\<lambda>r. account_id r = aid) (\<lambda>r. r\<lparr>balance := v\<rparr>) (bank_accounts d)"
    by (auto simp: update_bank_balance_def split: if_splits)
  then show ?thesis
    unfolding ratio_rule_def by (simp add: list_all_update_where)
qed

lemma ratio_rule_bank_deposit_transaction:
  assumes "bank_deposit_transaction aid uid amt account user_data d = Some d'"
  shows "ratio_rule d' = ratio_rule d"
proof -
  from assms obtain d2 d3 where
    s: "update_bank_balance aid (round_double (balance account + amt))
          (py_set_balance (acct_currency account) uid
             (round_double (py_balance (acct_currency account) user_data - amt)) d) = Some d2"
       "insert_bank_ledger True
          \<lparr>bl_account_id = aid, entry_type = ''deposit'', bl_amount = amt,
           bl_currency = acct_currency account, bl_description = ''Deposit from wallet'',
           counterparty_account_id = None, created_by_user_id = uid\<rparr> d2 = Some d3"
       "bank_accounts d' = bank_accounts d3"
    by (auto simp: bank_deposit_transaction_def Let_def bank_accounts_insert_transaction
          split: option.splits)
  from s(3) bank_accounts_insert_bank_ledger [OF s(2)]
  have "ratio_rule d' = ratio_rule d2" by (simp add: ratio_rule_def)
  also have "\<dots> = ratio_rule (py_set_balance (acct_currency account) uid
             (round_double (py_balance (acct_currency account) user_data - amt)) d)"
    by (rule ratio_rule_update_bank_balance [OF s(1)])
  also have "\<dots> = ratio_rule d" by (simp add: ratio_rule_def)
  finally show ?thesis .
qed

lemma ratio_rule_bank_withdraw_transaction:
  assumes "bank_withdraw_transaction aid uid amt account user_data d = Some d'"
  shows "ratio_rule d' = ratio_rule d"
proof -
  from assms obtain d1 d3 where
    s: "update_bank_balance aid (round_double (balance account - amt)) d = Some d1"
       "insert_bank_ledger True
          \<lparr>bl_account_id = aid, entry_type = ''withdrawal'', bl_amount = amt,
           bl_currency = acct_currency account, bl_description = ''Withdrawal to wallet'',
           counterparty_account_id = None, created_by_user_id = uid\<rparr>
          (py_set_balance (acct_currency account) uid
             (round_double (py_balance (acct_currency account) user_data + amt)) d1) = Some d3"
       "bank_accounts d' = bank_accounts d3"
    by (auto simp: bank_withdraw_transaction_def Let_def bank_accounts_insert_transaction
          split: option.splits)
  from s(3) bank_accounts_insert_bank_ledger [OF s(2)]
  have "ratio_rule d' = ratio_rule d1" by (simp add: ratio_rule_def)
  also have "\<dots> = ratio_rule d" by (rule ratio_rule_update_bank_balance [OF s(1)])
  finally show ?thesis .
qed

lemma ratio_rule_bank_transfer_transaction:
  assumes "bank_transfer_transaction from_id to_id uid amt description fa ta d = Some d'"
  shows "ratio_rule d' = ratio_rule d"
proof -
  from assms obtain d1 d2 d3 d4 r3 r4 where
    s: "update_bank_balance from_id (round_double (balance fa - amt)) d = Some d1"
       "update_bank_balance to_id (round_double (balance ta + amt)) d1 = Some d2"
       "insert_bank_ledger True r3 d2 = Some d3"
       "insert_bank_ledger True r4 d3 = Some d4"
       "bank_accounts d' = bank_accounts d4"
    by (auto simp: bank_transfer_transaction_def Let_def bank_accounts_insert_transaction
          split: option.splits)
  from s(5) bank_accounts_insert_bank_ledger [OF s(4)] bank_accounts_insert_bank_ledger [OF s(3)]
  have "ratio_rule d' = ratio_rule d2" by (simp add: ratio_rule_def)
  also have "\<dots> = ratio_rule d1" by (rule ratio_rule_update_bank_balance [OF s(2)])
  also have "\<dots> = ratio_rule d" by (rule ratio_rule_update_bank_balance [OF s(1)])
  finally show ?thesis .
qed

lemma ratio_rule_get_user_account:
  "ratio_rule (snd (get_user_account uid name d)) = ratio_rule d"
  by (rule ratio_rule_cong) (rule bank_accounts_get_user_account)

lemma ratio_rule_bank_deposit:
  "ratio_rule d \<Longrightarrow> ratio_rule (snd (bank_deposit aid uid amt d))"
  using ratio_rule_get_user_account [of uid "[]" d]
  by (auto simp: bank_deposit_def Let_def ratio_rule_bank_deposit_transaction
        split: option.splits prod.splits)

lemma ratio_rule_bank_withdraw:
  "ratio_rule d \<Longrightarrow> ratio_rule (snd (bank_withdraw aid uid amt d))"
  using ratio_rule_get_user_account [of uid "[]" d]
  by (auto simp: bank_withdraw_def Let_def ratio_rule_bank_withdraw_transaction
        split: option.splits prod.splits)

lemma ratio_rule_bank_transfer:
  "ratio_rule d \<Longrightarrow> ratio_rule (snd (bank_transfer from_id to_id uid amt description d))"
  by (auto simp: bank_transfer_def Let_def ratio_rule_bank_transfer_transaction
        split: option.splits prod.splits)

lemma ratio_rule_new_row:
  assumes "ratio_rule d" "opening_request_valid owner institution_id atype c ratio d"
      and "insert_bank_account fk
             \<lparr>account_id = n, account_number = number, institution_business_id = institution_id,
              owner_user_id = owner, account_type = atype, acct_currency = c, balance = 0,
              profit_share_ratio = ratio, acct_status = ''active''\<rparr> d = Some d1"
  shows "ratio_rule d1"
  using assms
  by (auto simp: insert_bank_account_def opening_request_valid_def ratio_rule_def
        split: if_splits option.splits)

text \<open>
  Claim C9. \<^verbatim>\<open>create_bank_account\<close> rejects a mudarabah request whose ratio is
  absent or outside \<open>[0, 1]\<close> and a wadiah request that carries a ratio, and creates
  nothing. The rule "a ratio is present exactly on mudarabah accounts" is kept by every
  function that writes \<^verbatim>\<open>bank_accounts\<close> (the insert of \<^verbatim>\<open>create_bank_account\<close> and
  the balance updates of deposit, withdrawal and transfer), and the row that a checked
  request inserts obeys it.
\<close>

theorem profit_share_ratio_rule:
  "(atype = ''mudarabah'' \<and> (case ratio of None \<Rightarrow> True | Some r \<Rightarrow> r < 0 \<or> 1 < r) \<longrightarrow>
      snd (create_bank_account draws owner institution_id atype c ratio cb d) = d \<and>
      fst (create_bank_account draws owner institution_id atype c ratio cb d)
        \<in> {Invalid_Account_Currency, Mudarabah_Requires_Ratio}) \<and>
   (atype = ''wadiah'' \<and> ratio \<noteq> None \<longrightarrow>
      snd (create_bank_account draws owner institution_id atype c ratio cb d) = d \<and>
      fst (create_bank_account draws owner institution_id atype c ratio cb d)
        \<in> {Invalid_Account_Currency, Wadiah_Cannot_Have_Profit_Sharing}) \<and>
   (ratio_rule d \<longrightarrow>
      ratio_rule (snd (create_bank_account draws owner institution_id atype c ratio cb d)) \<and>
      ratio_rule (snd (bank_deposit aid uid amt d)) \<and>
      ratio_rule (snd (bank_withdraw aid uid amt d)) \<and>
      ratio_rule (snd (bank_transfer from_id to_id uid amt description d))) \<and>
   (ratio_rule d \<and> opening_request_valid owner institution_id atype c ratio d \<longrightarrow>
      (\<forall>n number d1.
          insert_bank_account False
            \<lparr>account_id = n, account_number = number, institution_business_id = institution_id,
             owner_user_id = owner, account_type = atype, acct_currency = c, balance = 0,
             profit_share_ratio = ratio, acct_status = ''active''\<rparr> d = Some d1 \<longrightarrow>
          ratio_rule d1))"
proof (intro conjI impI allI)
  assume "atype = ''mudarabah'' \<and> (case ratio of None \<Rightarrow> True | Some r \<Rightarrow> r < 0 \<or> 1 < r)"
  then show "snd (create_bank_account draws owner institution_id atype c ratio cb d) = d"
    and "fst (create_bank_account draws owner institution_id atype c ratio cb d)
        \<in> {Invalid_Account_Currency, Mudarabah_Requires_Ratio}"
    unfolding create_bank_account_cases by simp_all
next
  assume "atype = ''wadiah'' \<and> ratio \<noteq> None"
  then show "snd (create_bank_account draws owner institution_id atype c ratio cb d) = d"
    and "fst (create_bank_account draws owner institution_id atype c ratio cb d)
        \<in> {Invalid_Account_Currency, Wadiah_Cannot_Have_Profit_Sharing}"
    unfolding create_bank_account_cases by simp_all
next
  assume r: "ratio_rule d"
  have "snd (create_bank_account draws owner institution_id atype c ratio cb d) = d"
    unfolding create_bank_account_cases by simp
  with r show "ratio_rule (snd (create_bank_account draws owner institution_id atype c ratio cb d))"
    by simp
  from r show "ratio_rule (snd (bank_deposit aid uid amt d))" by (rule ratio_rule_bank_deposit)
  from r show "ratio_rule (snd (bank_withdraw aid uid amt d))" by (rule ratio_rule_bank_withdraw)
  from r show "ratio_rule (snd (bank_transfer from_id to_id uid amt description d))"
    by (rule ratio_rule_bank_transfer)
next
  fix n number d1
  assume "ratio_rule d \<and> opening_request_valid owner institution_id atype c ratio d"
    and "insert_bank_account False
            \<lparr>account_id = n, account_number = number, institution_business_id = institution_id,
             owner_user_id = owner, account_type = atype, acct_currency = c, balance = 0,
             profit_share_ratio = ratio, acct_status = ''active''\<rparr> d = Some d1"
  then show "ratio_rule d1" using ratio_rule_new_row by blast
qed

text \<open>
  The example bank holds one mudarabah account with ratio one half and one wadiah
  account without a ratio.
\<close>

theorem profit_share_ratio_rule_witness:
  "ratio_rule demo_bank_db \<and>
   create_bank_account [''IBK-CCCCCCCC''] bob 1 ''mudarabah'' ''gold_dinars'' None (Some bob) demo_bank_db
     = (Mudarabah_Requires_Ratio, demo_bank_db) \<and>
   create_bank_account [''IBK-CCCCCCCC''] bob 1 ''wadiah'' ''gold_dinars'' (Some (1 / 2)) (Some bob)
       demo_bank_db
     = (Wadiah_Cannot_Have_Profit_Sharing, demo_bank_db) \<and>
   ratio_rule (snd (bank_deposit 1 alice 10 demo_bank_db)) \<and>
   ratio_rule (snd (bank_withdraw 1 alice 10 demo_bank_db)) \<and>
   ratio_rule (snd (bank_transfer 1 2 alice 10 None demo_bank_db)) \<and>
   opening_request_valid bob 1 ''mudarabah'' ''gold_dinars'' (Some (1 / 2)) demo_bank_db \<and>
   (\<exists>d1. insert_bank_account False
            \<lparr>account_id = 3, account_number = ''IBK-CCCCCCCC'', institution_business_id = 1,
             owner_user_id = bob, account_type = ''mudarabah'', acct_currency = ''gold_dinars'',
             balance = 0, profit_share_ratio = Some (1 / 2), acct_status = ''active''\<rparr>
            demo_bank_db = Some d1 \<and> ratio_rule d1)"
proof -
  have r: "ratio_rule demo_bank_db"
    by (simp add: ratio_rule_def demo_bank_db_def del: not_None_eq)
  have m: "create_bank_account [''IBK-CCCCCCCC''] bob 1 ''mudarabah'' ''gold_dinars'' None (Some bob)
             demo_bank_db = (Mudarabah_Requires_Ratio, demo_bank_db)"
    using profit_share_ratio_rule [of "''mudarabah''" None "[''IBK-CCCCCCCC'']" bob 1
            "''gold_dinars''" "Some bob" demo_bank_db]
    by (simp add: create_bank_account_def)
  have w: "create_bank_account [''IBK-CCCCCCCC''] bob 1 ''wadiah'' ''gold_dinars'' (Some (1 / 2))
             (Some bob) demo_bank_db = (Wadiah_Cannot_Have_Profit_Sharing, demo_bank_db)"
    by (simp add: create_bank_account_def)
  have v: "opening_request_valid bob 1 ''mudarabah'' ''gold_dinars'' (Some (1 / 2)) demo_bank_db"
    by (simp add: opening_request_valid_def demo_bank_db_def get_user_account_count_def
          alice_def bob_def)
  have i: "insert_bank_account False
            \<lparr>account_id = 3, account_number = ''IBK-CCCCCCCC'', institution_business_id = 1,
             owner_user_id = bob, account_type = ''mudarabah'', acct_currency = ''gold_dinars'',
             balance = 0, profit_share_ratio = Some (1 / 2), acct_status = ''active''\<rparr>
            demo_bank_db \<noteq> None"
    by (simp add: insert_bank_account_def demo_bank_db_def)
  from profit_share_ratio_rule [of "''mudarabah''" "Some (1 / 2)" "[''IBK-CCCCCCCC'']" bob 1
         "''gold_dinars''" "Some bob" demo_bank_db 1 alice 10 1 2 None]
  show ?thesis using r m w v i by auto
qed

subsection \<open>Loan lifecycle monitor\<close>

lemma reset_columns_missing:
  "\<not> list_all (has_column users_table_columns) reset_update_columns"
  by code_simp

lemma reset_user_data_fails: "reset_user_data uid reason d = (False, d)"
  by (simp add: reset_user_data_def reset_columns_missing split: option.splits)

lemma process_rows_past_grace:
  assumes "\<forall>row \<in> set rows. fst (snd row) < today - 14"
  shows "process_rows reason_text today rows processed_users d = ([], d)"
  using assms
proof (induction rows arbitrary: processed_users)
  case Nil
  then show ?case by simp
next
  case (Cons row rows)
  obtain uid due amt repaid lid where row: "row = (uid, due, amt, repaid, lid)"
    by (cases row)
  from Cons.prems row have "today - due \<ge> 14" by simp
  moreover from Cons have "process_rows reason_text today rows ps d = ([], d)" for ps by simp
  ultimately show ?case by (simp add: row reset_user_data_fails)
qed

lemma check_overdue_loans_past_grace:
  "\<forall>row \<in> set (check_overdue_loans today d). fst (snd row) < today - 14"
  by (auto simp: check_overdue_loans_def)

lemma process_overdue_loans_noop:
  "process_overdue_loans reason_text today d = ([], d)"
  by (simp add: process_overdue_loans_def Let_def process_rows_past_grace
        check_overdue_loans_past_grace)

text \<open>
  Claim C7, evaluated on the code. Bob's loan of 50 silver was due on day 1000 and
  is unpaid; the sweep runs on day 1020. The loan is selected, but the
  \<^verbatim>\<open>UPDATE users\<close> of \<^verbatim>\<open>reset_user_data\<close> names columns that the \<^verbatim>\<open>users\<close> table
  of \<^verbatim>\<open>init_database\<close> does not have, so the reset raises and commits nothing: the
  balances, the loan's status and the transaction table are as before, no
  \<^verbatim>\<open>account_reset\<close> row exists, and a second sweep selects the same loan again.
\<close>

theorem overdue_reset_not_performed:
  "check_overdue_loans 1020 overdue_db = [(bob, 1000, 50, 0, 1)] \<and>
   reset_user_data bob (demo_reason 50 20) overdue_db = (False, overdue_db) \<and>
   process_overdue_loans demo_reason 1020 overdue_db = ([], overdue_db) \<and>
   wallet (snd (process_overdue_loans demo_reason 1020 overdue_db)) bob Gold = Some 100 \<and>
   wallet (snd (process_overdue_loans demo_reason 1020 overdue_db)) bob Silver = Some 550 \<and>
   map loan_status (loans (snd (process_overdue_loans demo_reason 1020 overdue_db))) = [''active''] \<and>
   transactions (snd (process_overdue_loans demo_reason 1020 overdue_db)) = [] \<and>
   check_overdue_loans 1020 (snd (process_overdue_loans demo_reason 1020 overdue_db))
     = [(bob, 1000, 50, 0, 1)]"
proof -
  have c: "check_overdue_loans 1020 overdue_db = [(bob, 1000, 50, 0, 1)]"
    by (simp add: check_overdue_loans_def overdue_db_def)
  have w: "wallet overdue_db bob Gold = Some 100" "wallet overdue_db bob Silver = Some 550"
    by (simp_all add: wallet_def fetch_user_def overdue_db_def alice_def bob_def)
  have l: "map loan_status (loans overdue_db) = [''active'']" "transactions overdue_db = []"
    by (simp_all add: overdue_db_def)
  show ?thesis
    by (simp add: process_overdue_loans_noop reset_user_data_fails c w l)
qed

lemma process_rows_no_warning:
  assumes "\<forall>row \<in> set rows. fst (snd row) < today - 14"
  shows "filter is_warning (fst (process_rows reason_text today rows processed_users d)) = []"
  using assms
proof (induction rows arbitrary: processed_users d)
  case Nil
  then show ?case by simp
next
  case (Cons row rows)
  obtain uid due amt repaid lid where row: "row = (uid, due, amt, repaid, lid)"
    by (cases row)
  from Cons.prems row have late: "today - due \<ge> 14" by simp
  from Cons have ih: "filter is_warning (fst (process_rows reason_text today rows ps d')) = []"
    for ps d' by simp
  show ?case
  proof (cases "uid \<in> set processed_users")
    case True
    with ih show ?thesis by (simp add: row)
  next
    case False
    obtain ok d1 where r: "reset_user_data uid (reason_text (round_double (amt - repaid)) (today - due)) d = (ok, d1)"
      by (cases "reset_user_data uid (reason_text (round_double (amt - repaid)) (today - due)) d")
    obtain sent d2 where p: "process_rows reason_text today rows (uid # processed_users) d1 = (sent, d2)"
      by (cases "process_rows reason_text today rows (uid # processed_users) d1")
    from ih [of "uid # processed_users" d1] p have "filter is_warning sent = []" by simp
    with False late r p show ?thesis by (simp add: row)
  qed
qed

lemma process_overdue_loans_no_warning:
  "filter is_warning (fst (process_overdue_loans reason_text today d)) = []"
  by (simp add: process_overdue_loans_def Let_def process_rows_no_warning
        check_overdue_loans_past_grace)

text \<open>
  Claim C8, evaluated on the code. On day 1010 the same loan is ten days past due,
  active and unpaid; \<^verbatim>\<open>check_overdue_loans\<close> compares the due date with the day fourteen
  days back and selects nothing, so no warning is sent. On any database and any day
  every selected row is more than fourteen days past due, so the branch for seven to
  thirteen days is never taken and no sweep sends a warning, whatever the reset does.
\<close>

theorem overdue_warning_never_sent:
  "check_overdue_loans 1010 overdue_db = [] \<and>
   process_overdue_loans demo_reason 1010 overdue_db = ([], overdue_db) \<and>
   (\<forall>reason_text today d. filter is_warning (fst (process_overdue_loans reason_text today d)) = [])"
proof -
  have c: "check_overdue_loans 1010 overdue_db = []"
    by (simp add: check_overdue_loans_def overdue_db_def)
  then have "process_overdue_loans demo_reason 1010 overdue_db = ([], overdue_db)"
    by (simp add: process_overdue_loans_def)
  with c show ?thesis by (simp add: process_overdue_loans_no_warning)
qed

subsection \<open>Loan funding\<close>

lemma insert_transaction_Some:
  "insert_transaction t d = Some d' \<Longrightarrow> d' = d\<lparr>transactions := transactions d @ [t]\<rparr>"
  by (auto simp: insert_transaction_def split: if_splits)

lemma sql_add_balance_Some:
  "sql_add_balance c uid v d = Some d' \<Longrightarrow>
     \<exists>k. users_column c = Some k \<and>
         d' = d\<lparr>users := update_where (\<lambda>u. user_id u = uid)
                            (\<lambda>u. set_col k (round_double (get_col k u + v)) u) (users d)\<rparr>"
  by (auto simp: sql_add_balance_def split: option.splits)

lemma loan_applications_py_set_balance [simp]:
  "loan_applications (py_set_balance c uid v d) = loan_applications d"
  by (simp add: py_set_balance_def)

lemma loans_py_set_balance [simp]:
  "loans (py_set_balance c uid v d) = loans d"
  by (simp add: py_set_balance_def)

lemma get_user_account_frame:
  "loan_applications (snd (get_user_account uid name d)) = loan_applications d"
  "loans (snd (get_user_account uid name d)) = loans d"
  by (simp_all add: get_user_account_def Let_def split: option.splits)

lemma fund_loan_transaction_applications:
  assumes "fund_loan_transaction lender lender_name application_id app user_data d = Some (n, d')"
  shows "loan_applications d' =
           update_where (\<lambda>a. app_id a = application_id)
             (\<lambda>a. a\<lparr>app_status := ''funded'', funded_by := Some lender\<rparr>) (loan_applications d)"
  using assms
  by (auto simp: fund_loan_transaction_def Let_def split: option.splits if_splits
        dest!: insert_transaction_Some sql_add_balance_Some)

lemma fund_loan_not_pending:
  assumes "\<forall>a \<in> set (loan_applications d). app_id a = application_id \<longrightarrow> app_status a \<noteq> ''pending''"
  shows "fund_loan lender lender_name application_id d = (Application_Not_Found_Or_Already_Funded, d)"
proof -
  from assms have "find (\<lambda>a. app_id a = application_id \<and> app_status a = ''pending'')
                     (loan_applications d) = None"
    unfolding find_None_iff by blast
  then show ?thesis by (simp add: fund_loan_def)
qed

lemma fund_loan_success_applications:
  assumes "fund_loan lender lender_name application_id d = (Loan_Funded n, d')"
  shows "loan_applications d' =
           update_where (\<lambda>a. app_id a = application_id)
             (\<lambda>a. a\<lparr>app_status := ''funded'', funded_by := Some lender\<rparr>) (loan_applications d)"
proof (cases "find (\<lambda>a. app_id a = application_id \<and> app_status a = ''pending'') (loan_applications d)")
  case None
  with assms show ?thesis by (simp add: fund_loan_def)
next
  case (Some app)
  obtain user_data d0 where g: "get_user_account lender lender_name d = (user_data, d0)"
    by (cases "get_user_account lender lender_name d")
  show ?thesis
  proof (cases "fund_loan_transaction lender lender_name application_id app user_data d0")
    case None
    with assms Some g show ?thesis
      by (simp add: fund_loan_def split: if_splits)
  next
    case (Some r)
    obtain n' d'' where r: "r = (n', d'')" by (cases r)
    from assms \<open>find _ _ = Some app\<close> g Some r have "d'' = d'"
      by (simp add: fund_loan_def split: if_splits)
    with Some r have "fund_loan_transaction lender lender_name application_id app user_data d0
                        = Some (n', d')" by simp
    from fund_loan_transaction_applications [OF this]
         get_user_account_frame(1) [of lender lender_name d] g
    show ?thesis by simp
  qed
qed

lemma fund_loan_demo: "fst (fund_loan alice ''A'' 1 loan_db) = Loan_Funded 2"
  by (simp add: fund_loan_def fund_loan_transaction_def loan_db_def get_user_account_def
        validate_user_id_def isdigit_def fetch_user_def py_balance_def py_set_balance_def
        sql_add_balance_def users_column_def lower_def lower_char_def user_exists_def
        next_id_def update_where_def insert_transaction_def alice_def bob_def Let_def)

subsection \<open>Loan repayment\<close>

lemma repay_loan_transaction_loans:
  assumes "repay_loan_transaction caller lid amt l user_data d = Some (st, d')"
  shows "loans d' = update_where (\<lambda>r. loan_id r = lid) (repaid_row l amt) (loans d) \<and>
         st = (if round_double (repaid_amount l + amt) \<ge> loan_amount l
               then ''completed'' else ''active'')"
  using assms
  by (auto simp: repay_loan_transaction_def Let_def repaid_row_def [abs_def]
        split: option.splits if_splits dest!: insert_transaction_Some sql_add_balance_Some)

lemma repay_loan_loans:
  "loans (snd (repay_loan caller name lid amt d)) = loans d \<or>
   (\<exists>l. find (\<lambda>l. loan_id l = lid \<and> borrower_id l = caller) (loans d) = Some l \<and>
        loan_status l = ''active'' \<and> 0 < amt \<and>
        amt \<le> round_double (loan_amount l - repaid_amount l) \<and>
        loans (snd (repay_loan caller name lid amt d)) =
          update_where (\<lambda>r. loan_id r = lid) (repaid_row l amt) (loans d))"
proof (cases "find (\<lambda>l. loan_id l = lid \<and> borrower_id l = caller) (loans d)")
  case None
  then show ?thesis by (simp add: repay_loan_def)
next
  case (Some l)
  obtain user_data d0 where g: "get_user_account caller name d = (user_data, d0)"
    by (cases "get_user_account caller name d")
  have l0: "loans d0 = loans d"
    using get_user_account_frame(2) [of caller name d] g by simp
  show ?thesis
  proof (cases "loan_status l = ''active'' \<and> 0 < amt \<and>
                amt \<le> round_double (loan_amount l - repaid_amount l) \<and>
                \<not> py_balance (loan_currency l) user_data < amt")
    case False
    with Some g l0 show ?thesis
      by (auto simp: repay_loan_def Let_def)
  next
    case True
    show ?thesis
    proof (cases "repay_loan_transaction caller lid amt l user_data d0")
      case None
      with Some g l0 True show ?thesis by (simp add: repay_loan_def Let_def)
    next
      case (Some r)
      obtain st d' where r: "r = (st, d')" by (cases r)
      from repay_loan_transaction_loans [OF Some [unfolded r]] l0
      have "loans d' = update_where (\<lambda>r. loan_id r = lid) (repaid_row l amt) (loans d)" by simp
      moreover have "snd (repay_loan caller name lid amt d) = d'"
        using \<open>find _ _ = Some l\<close> g True Some r by (simp add: repay_loan_def Let_def)
      ultimately show ?thesis using \<open>find _ _ = Some l\<close> True by simp
    qed
  qed
qed

lemma loan_ids_update_where:
  "(\<And>r. loan_id (f r) = loan_id r) \<Longrightarrow> map loan_id (update_where P f rows) = map loan_id rows"
  by (induction rows) (simp_all add: update_where_def)

lemma loan_id_repaid_row [simp]: "loan_id (repaid_row l amt r) = loan_id r"
  by (simp add: repaid_row_def)

lemma repay_loan_loan_ids:
  "map loan_id (loans (snd (repay_loan caller name lid amt d))) = map loan_id (loans d)"
  using repay_loan_loans [of caller name lid amt d]
  by (elim disjE exE conjE) (simp_all add: loan_ids_update_where)

lemma loan_unique:
  assumes "distinct (map loan_id rows)" "l \<in> set rows" "l' \<in> set rows" "loan_id l' = loan_id l"
  shows "l' = l"
  using assms by (metis distinct_map inj_onD)

lemma repaid_progress_refl: "repaid_progress l l"
  by (simp add: repaid_progress_def)

lemma repaid_progress_trans:
  "repaid_progress l l1 \<Longrightarrow> repaid_progress l1 l2 \<Longrightarrow> repaid_progress l l2"
  unfolding repaid_progress_def by (elim conjE disjE) simp_all

text \<open>
  The stored amounts of a loan row are doubles and the repaid amount is not negative;
  repayments keep it so.
\<close>

lemma repaid_progress_doubles:
  assumes "repaid_progress l l1"
      and "round_double (loan_amount l) = loan_amount l"
      and "round_double (repaid_amount l) = repaid_amount l"
      and "0 \<le> repaid_amount l"
  shows "round_double (loan_amount l1) = loan_amount l1 \<and>
         round_double (repaid_amount l1) = repaid_amount l1 \<and> 0 \<le> repaid_amount l1"
  using assms unfolding repaid_progress_def by (elim conjE disjE) simp_all

lemma repaid_row_progress:
  assumes dP: "round_double (loan_amount l) = loan_amount l"
      and dr: "round_double (repaid_amount l) = repaid_amount l"
      and r0: "0 \<le> repaid_amount l"
      and pos: "0 < amt"
      and le: "amt \<le> round_double (loan_amount l - repaid_amount l)"
  shows "repaid_progress l (repaid_row l amt l)"
proof -
  from pos have "repaid_amount l \<le> repaid_amount l + amt" by simp
  then have "round_double (repaid_amount l) \<le> round_double (repaid_amount l + amt)"
    by (rule round_double_mono)
  with dr have mono: "repaid_amount l \<le> round_double (repaid_amount l + amt)" by simp
  have bound: "round_double (repaid_amount l + amt) \<le> loan_amount l + ulp (loan_amount l)"
    using dP r0 pos le by (rule repayment_bound)
  from mono bound show ?thesis
    by (simp add: repaid_progress_def repaid_row_def)
qed

lemma repay_loan_step:
  assumes pk: "distinct (map loan_id (loans d))" and l: "l \<in> set (loans d)"
      and dP: "round_double (loan_amount l) = loan_amount l"
      and dr: "round_double (repaid_amount l) = repaid_amount l"
      and r0: "0 \<le> repaid_amount l"
  shows "\<exists>l1 \<in> set (loans (snd (repay_loan caller name lid amt d))). repaid_progress l l1"
  using repay_loan_loans [of caller name lid amt d]
proof (elim disjE exE conjE)
  assume "loans (snd (repay_loan caller name lid amt d)) = loans d"
  with l repaid_progress_refl show ?thesis by auto
next
  fix l0
  assume f: "find (\<lambda>l. loan_id l = lid \<and> borrower_id l = caller) (loans d) = Some l0"
    and act: "loan_status l0 = ''active''" and pos: "0 < amt"
    and le: "amt \<le> round_double (loan_amount l0 - repaid_amount l0)"
    and upd: "loans (snd (repay_loan caller name lid amt d)) =
               update_where (\<lambda>r. loan_id r = lid) (repaid_row l0 amt) (loans d)"
  from find_Some_mem [OF f] have l0: "l0 \<in> set (loans d)" "loan_id l0 = lid" by simp_all
  let ?l1 = "if loan_id l = lid then repaid_row l0 amt l else l"
  from l have "(\<lambda>r. if loan_id r = lid then repaid_row l0 amt r else r) l
                 \<in> set (map (\<lambda>r. if loan_id r = lid then repaid_row l0 amt r else r) (loans d))"
    by (simp only: set_map) (rule imageI)
  then have mem: "?l1 \<in> set (loans (snd (repay_loan caller name lid amt d)))"
    by (simp add: upd update_where_def)
  have "repaid_progress l ?l1"
  proof (cases "loan_id l = lid")
    case False
    then show ?thesis by (simp add: repaid_progress_refl)
  next
    case True
    with l0 l pk have eq: "l0 = l" by (metis loan_unique)
    from repaid_row_progress [OF dP dr r0 pos le [unfolded eq]] True eq
    show ?thesis by simp
  qed
  with mem show ?thesis by blast
qed

lemma repay_all_progress:
  assumes "distinct (map loan_id (loans d))" "l \<in> set (loans d)"
      and "round_double (loan_amount l) = loan_amount l"
      and "round_double (repaid_amount l) = repaid_amount l"
      and "0 \<le> repaid_amount l"
  shows "\<exists>l' \<in> set (loans (repay_all calls d)). repaid_progress l l'"
  using assms
proof (induction calls arbitrary: d l)
  case Nil
  then show ?case using repaid_progress_refl by auto
next
  case (Cons call calls)
  obtain caller name lid amt where call: "call = (caller, name, lid, amt)"
    by (cases call)
  let ?d1 = "snd (repay_loan caller name lid amt d)"
  from repay_loan_step [OF Cons.prems, of caller name lid amt]
  obtain l1 where l1: "l1 \<in> set (loans ?d1)" "repaid_progress l l1" by blast
  have pk1: "distinct (map loan_id (loans ?d1))"
    using Cons.prems(1) by (simp add: repay_loan_loan_ids)
  from repaid_progress_doubles [OF l1(2) Cons.prems(3,4,5)]
  have d1: "round_double (loan_amount l1) = loan_amount l1"
           "round_double (repaid_amount l1) = repaid_amount l1" "0 \<le> repaid_amount l1"
    by simp_all
  from Cons.IH [OF pk1 l1(1) d1]
  obtain l' where "l' \<in> set (loans (repay_all calls ?d1))" "repaid_progress l1 l'" by blast
  with l1(2) call show ?case
    using repaid_progress_trans by auto
qed

lemma find_loan_borrower:
  assumes pk: "distinct (map loan_id (loans d))" and l: "l \<in> set (loans d)"
  shows "find (\<lambda>r. loan_id r = loan_id l \<and> borrower_id r = caller) (loans d) =
           (if borrower_id l = caller then Some l else None)"
proof (cases "find (\<lambda>r. loan_id r = loan_id l \<and> borrower_id r = caller) (loans d)")
  case None
  then have "\<not> (\<exists>x \<in> set (loans d). loan_id x = loan_id l \<and> borrower_id x = caller)"
    by (simp add: find_None_iff)
  with l have "borrower_id l \<noteq> caller" by blast
  with None show ?thesis by simp
next
  case (Some r)
  from find_Some_mem [OF Some] have "r \<in> set (loans d)" "loan_id r = loan_id l" "borrower_id r = caller"
    by simp_all
  with loan_unique [OF pk l] have "r = l" "borrower_id l = caller" by auto
  with Some show ?thesis by simp
qed

lemma repay_loan_rejected:
  assumes pk: "distinct (map loan_id (loans d))" and l: "l \<in> set (loans d)"
      and bad: "caller \<noteq> borrower_id l \<or> loan_status l \<noteq> ''active'' \<or>
                amt > round_double (loan_amount l - repaid_amount l) \<or> amt \<le> 0"
  shows "snd (repay_loan caller name (loan_id l) amt d) = d \<and>
         fst (repay_loan caller name (loan_id l) amt d)
           \<in> {Loan_Not_Found_Or_Not_Borrower, Loan_Not_Active, Exceeds_Remaining_Balance,
              Repayment_Must_Be_Positive}"
proof (cases "borrower_id l = caller")
  case False
  with find_loan_borrower [OF pk l, of caller] show ?thesis
    by (simp add: repay_loan_def)
next
  case True
  with find_loan_borrower [OF pk l, of caller]
  have f: "find (\<lambda>r. loan_id r = loan_id l \<and> borrower_id r = caller) (loans d) = Some l" by simp
  from bad True have "loan_status l \<noteq> ''active'' \<or>
      amt > round_double (loan_amount l - repaid_amount l) \<or> amt \<le> 0"
    by auto
  then show ?thesis
    by (elim disjE) (simp_all add: repay_loan_def f Let_def)
qed

text \<open>The decimal constants of the example below, as doubles.\<close>

lemma double_0_11: "round_double (11 / 100) = 7926335344172073 / 2 ^ 56"
proof -
  have "round_double (11 / 100) =
          of_int (round_half_even ((11 / 100) / 2 powr of_int (- 4 - 52))) * 2 powr of_int (- 4 - 52)"
    by (rule round_double_eval) (simp_all add: powr_minus_divide)
  also have "\<dots> = 7926335344172073 / 2 ^ 56"
    by (simp add: round_half_even_def powr_minus_divide Let_def)
  finally show ?thesis .
qed

lemma double_0_04: "round_double (4 / 100) = 5764607523034235 / 2 ^ 57"
proof -
  have "round_double (4 / 100) =
          of_int (round_half_even ((4 / 100) / 2 powr of_int (- 5 - 52))) * 2 powr of_int (- 5 - 52)"
    by (rule round_double_eval) (simp_all add: powr_minus_divide)
  also have "\<dots> = 5764607523034235 / 2 ^ 57"
    by (simp add: round_half_even_def powr_minus_divide Let_def)
  finally show ?thesis .
qed

lemma double_0_07: "round_double (7 / 100) = 5044031582654956 / 2 ^ 56"
proof -
  have "round_double (7 / 100) =
          of_int (round_half_even ((7 / 100) / 2 powr of_int (- 4 - 52))) * 2 powr of_int (- 4 - 52)"
    by (rule round_double_eval) (simp_all add: powr_minus_divide)
  also have "\<dots> = 5044031582654956 / 2 ^ 56"
    by (simp add: round_half_even_def powr_minus_divide Let_def)
  finally show ?thesis .
qed

lemma double_0_11_minus_0_04:
  "round_double (7926335344172073 / 2 ^ 56 - 5764607523034235 / 2 ^ 57) = 5044031582654956 / 2 ^ 56"
proof -
  have "round_double (7926335344172073 / 2 ^ 56 - 5764607523034235 / 2 ^ 57) =
          of_int (round_half_even ((7926335344172073 / 2 ^ 56 - 5764607523034235 / 2 ^ 57) /
                                   2 powr of_int (- 4 - 52))) * 2 powr of_int (- 4 - 52)"
    by (rule round_double_eval) (simp_all add: powr_minus_divide)
  also have "\<dots> = 5044031582654956 / 2 ^ 56"
    by (simp add: round_half_even_def powr_minus_divide Let_def)
  finally show ?thesis .
qed

lemma double_0_04_plus_0_07:
  "round_double (5764607523034235 / 2 ^ 57 + 5044031582654956 / 2 ^ 56) = 7926335344172074 / 2 ^ 56"
proof -
  have "round_double (5764607523034235 / 2 ^ 57 + 5044031582654956 / 2 ^ 56) =
          of_int (round_half_even ((5764607523034235 / 2 ^ 57 + 5044031582654956 / 2 ^ 56) /
                                   2 powr of_int (- 4 - 52))) * 2 powr of_int (- 4 - 52)"
    by (rule round_double_eval) (simp_all add: powr_minus_divide)
  also have "\<dots> = 7926335344172074 / 2 ^ 56"
    by (simp add: round_half_even_def powr_minus_divide Let_def)
  finally show ?thesis .
qed

lemma cents_db_repayment:
  "fst (repay_loan bob ''B'' 1 (round_double (7 / 100)) cents_db) = Repayment_Processed ''completed'' \<and>
   map (\<lambda>l. (loan_amount l, repaid_amount l, loan_status l))
     (loans (snd (repay_loan bob ''B'' 1 (round_double (7 / 100)) cents_db))) =
     [(7926335344172073 / 2 ^ 56, 7926335344172074 / 2 ^ 56, ''completed'')]"
proof -
  let ?l = "\<lparr>loan_id = 1, lender_id = alice, borrower_id = bob,
             loan_amount = 7926335344172073 / 2 ^ 56, loan_currency = ''gold_dinars'',
             due_date = 1010, repaid_amount = 5764607523034235 / 2 ^ 57,
             loan_status = ''active''\<rparr>"
  let ?amt = "5044031582654956 / 2 ^ 56 :: real"
  have db: "cents_db =
     \<lparr>users = [\<lparr>user_id = alice, username = ''A'', gold_dinars = 100, silver_dirhams = 500\<rparr>,
               \<lparr>user_id = bob, username = ''B'', gold_dinars = 30, silver_dirhams = 500\<rparr>],
      transactions = [], loan_applications = [], loans = [?l],
      businesses = [], investments = [], marketplace = [], bank_accounts = [], bank_ledger = [],
      bank_account_permissions = []\<rparr>"
    by (simp only: cents_db_def double_0_11 double_0_04)
  have f: "find (\<lambda>l. loan_id l = 1 \<and> borrower_id l = bob) (loans cents_db) = Some ?l"
    unfolding db by simp
  have rem: "round_double (loan_amount ?l - repaid_amount ?l) = ?amt"
    using double_0_11_minus_0_04 by simp
  have new: "round_double (repaid_amount ?l + ?amt) = 7926335344172074 / 2 ^ 56"
    using double_0_04_plus_0_07 by simp
  let ?bob = "\<lparr>user_id = bob, username = ''B'', gold_dinars = 30, silver_dirhams = 500\<rparr>"
  have g: "get_user_account bob ''B'' cents_db = (?bob, cents_db)"
    by (simp add: get_user_account_def validate_user_id_def isdigit_def fetch_user_def
          cents_db_def alice_def bob_def)
  have "\<exists>r. repay_loan_transaction bob 1 ?amt ?l ?bob cents_db = Some r"
    by (simp add: repay_loan_transaction_def py_balance_def py_set_balance_def
          sql_add_balance_def users_column_def lower_def lower_char_def update_where_def
          insert_transaction_def cents_db_def alice_def bob_def Let_def)
  then obtain st d' where t: "repay_loan_transaction bob 1 ?amt ?l ?bob cents_db = Some (st, d')"
    by auto
  from repay_loan_transaction_loans [OF t]
  have ls: "loans d' = update_where (\<lambda>r. loan_id r = 1) (repaid_row ?l ?amt) (loans cents_db)"
    and st: "st = (if round_double (repaid_amount ?l + ?amt) \<ge> loan_amount ?l
                   then ''completed'' else ''active'')"
    by simp_all
  have st': "st = ''completed''" unfolding st new by simp
  have lt: "\<not> (30::real) < ?amt" by simp
  have pos: "\<not> ?amt \<le> 0" by simp
  have run: "repay_loan bob ''B'' 1 ?amt cents_db = (Repayment_Processed st, d')"
    unfolding repay_loan_def f using g t rem lt pos
    by (simp add: Let_def py_balance_def)
  have "map (\<lambda>l. (loan_amount l, repaid_amount l, loan_status l)) (loans d') =
          [(7926335344172073 / 2 ^ 56, 7926335344172074 / 2 ^ 56, ''completed'')]"
    unfolding ls db using new by (simp add: update_where_def repaid_row_def)
  with run st' show ?thesis by (simp only: double_0_07 fst_conv snd_conv simp_thms)
qed

text \<open>
  Bob has borrowed \<^verbatim>\<open>0.11\<close> gold from Alice and has repaid \<^verbatim>\<open>0.04\<close>. The outstanding
  balance as the code computes it, \<^verbatim>\<open>0.11 - 0.04\<close>, is the double \<^verbatim>\<open>0.07\<close>, so a
  repayment of \<^verbatim>\<open>0.07\<close> is accepted; \<^verbatim>\<open>0.04 + 0.07\<close> is the double
  \<^verbatim>\<open>0.11000000000000001\<close>, which is stored as \<open>repaid_amount\<close> above the principal, and
  the loan is \<^verbatim>\<open>completed\<close> although the two amounts differ.
\<close>

theorem repay_loan_exceeds_principal:
  "map (\<lambda>l. (loan_amount l, repaid_amount l, loan_status l)) (loans cents_db) =
     [(round_double (11 / 100), round_double (4 / 100), ''active'')] \<and>
   fst (repay_loan bob ''B'' 1 (round_double (7 / 100)) cents_db) = Repayment_Processed ''completed'' \<and>
   map (\<lambda>l. (loan_amount l, repaid_amount l, loan_status l))
     (loans (snd (repay_loan bob ''B'' 1 (round_double (7 / 100)) cents_db))) =
     [(7926335344172073 / 2 ^ 56, 7926335344172074 / 2 ^ 56, ''completed'')] \<and>
   round_double (11 / 100) = 7926335344172073 / 2 ^ 56 \<and>
   (7926335344172073 / 2 ^ 56 :: real) < 7926335344172074 / 2 ^ 56"
proof (intro conjI)
  show "map (\<lambda>l. (loan_amount l, repaid_amount l, loan_status l)) (loans cents_db) =
          [(round_double (11 / 100), round_double (4 / 100), ''active'')]"
    by (simp add: cents_db_def)
  show "fst (repay_loan bob ''B'' 1 (round_double (7 / 100)) cents_db) =
          Repayment_Processed ''completed''"
    by (rule cents_db_repayment [THEN conjunct1])
  show "map (\<lambda>l. (loan_amount l, repaid_amount l, loan_status l))
          (loans (snd (repay_loan bob ''B'' 1 (round_double (7 / 100)) cents_db))) =
          [(7926335344172073 / 2 ^ 56, 7926335344172074 / 2 ^ 56, ''completed'')]"
    by (rule cents_db_repayment [THEN conjunct2])
  show "round_double (11 / 100) = 7926335344172073 / 2 ^ 56" by (rule double_0_11)
  show "(7926335344172073 / 2 ^ 56 :: real) < 7926335344172074 / 2 ^ 56" by simp
qed

text \<open>
  Claim C5, with binary64 arithmetic. Loans have their primary key; the principal and
  the repaid amount of the loan are doubles and the repaid amount is not negative (a
  loan is inserted with \<open>repaid_amount\<close> 0). Over any sequence of \<^verbatim>\<open>repay_loan\<close> calls the
  loan keeps its id, principal and borrower, and either is untouched or its
  \<open>repaid_amount\<close> has not decreased, exceeds the principal by at most one unit in the
  last place of the principal, and its status is \<^verbatim>\<open>completed\<close> exactly when
  \<open>repaid_amount\<close> has reached the principal. A call by someone other than the borrower,
  on a loan that is not \<^verbatim>\<open>active\<close>, with an amount above the outstanding balance (the
  double nearest to principal minus \<open>repaid_amount\<close>) or with an amount that is not
  positive is rejected and changes nothing.
\<close>

theorem repay_loan_monotone:
  assumes "distinct (map loan_id (loans d))" and "l \<in> set (loans d)"
      and "round_double (loan_amount l) = loan_amount l"
      and "round_double (repaid_amount l) = repaid_amount l"
      and "0 \<le> repaid_amount l"
  shows "(\<exists>l' \<in> set (loans (repay_all calls d)). repaid_progress l l') \<and>
         (\<forall>caller name amt.
            caller \<noteq> borrower_id l \<or> loan_status l \<noteq> ''active'' \<or>
            amt > round_double (loan_amount l - repaid_amount l) \<or> amt \<le> 0 \<longrightarrow>
            snd (repay_loan caller name (loan_id l) amt d) = d \<and>
            fst (repay_loan caller name (loan_id l) amt d)
              \<in> {Loan_Not_Found_Or_Not_Borrower, Loan_Not_Active, Exceeds_Remaining_Balance,
                 Repayment_Must_Be_Positive})"
  using repay_all_progress [OF assms] repay_loan_rejected [OF assms(1,2)] by blast

lemma repay_all_demo:
  "loans (repay_all [(bob, ''B'', 1, 5), (bob, ''B'', 1, 15)] loan_db) =
     [demo_loan\<lparr>repaid_amount := 20, loan_status := ''completed''\<rparr>]"
  by (simp add: repay_loan_def repay_loan_transaction_def loan_db_def demo_loan_def
        get_user_account_def validate_user_id_def isdigit_def fetch_user_def py_balance_def
        py_set_balance_def sql_add_balance_def users_column_def lower_def lower_char_def
        update_where_def insert_transaction_def alice_def bob_def Let_def)

text \<open>
  Bob repays his loan of 20 gold in two parts, 5 and 15.
\<close>

theorem repay_loan_monotone_witness:
  "distinct (map loan_id (loans loan_db)) \<and> demo_loan \<in> set (loans loan_db) \<and>
   round_double (loan_amount demo_loan) = loan_amount demo_loan \<and>
   round_double (repaid_amount demo_loan) = repaid_amount demo_loan \<and>
   0 \<le> repaid_amount demo_loan \<and>
   (\<exists>l' \<in> set (loans (repay_all [(bob, ''B'', 1, 5), (bob, ''B'', 1, 15)] loan_db)).
       repaid_progress demo_loan l' \<and> repaid_amount l' = 20 \<and> loan_status l' = ''completed'') \<and>
   repay_loan bob ''B'' 1 25 loan_db = (Exceeds_Remaining_Balance, loan_db) \<and>
   repay_loan bob ''B'' 1 0 loan_db = (Repayment_Must_Be_Positive, loan_db) \<and>
   repay_loan alice ''A'' 1 5 loan_db = (Loan_Not_Found_Or_Not_Borrower, loan_db)"
proof -
  have pk: "distinct (map loan_id (loans loan_db))" by (simp add: loan_db_def)
  have mem: "demo_loan \<in> set (loans loan_db)" by (simp add: loan_db_def demo_loan_def)
  have dP: "round_double (loan_amount demo_loan) = loan_amount demo_loan"
    by (simp add: demo_loan_def)
  have dr: "round_double (repaid_amount demo_loan) = repaid_amount demo_loan"
    by (simp add: demo_loan_def)
  have r0: "0 \<le> repaid_amount demo_loan" by (simp add: demo_loan_def)
  have r1: "repay_loan bob ''B'' 1 25 loan_db = (Exceeds_Remaining_Balance, loan_db)"
    by (simp add: repay_loan_def loan_db_def alice_def bob_def)
  have r2: "repay_loan bob ''B'' 1 0 loan_db = (Repayment_Must_Be_Positive, loan_db)"
    by (simp add: repay_loan_def loan_db_def alice_def bob_def)
  have r3: "repay_loan alice ''A'' 1 5 loan_db = (Loan_Not_Found_Or_Not_Borrower, loan_db)"
    by (simp add: repay_loan_def loan_db_def alice_def bob_def)
  have p: "repaid_progress demo_loan (demo_loan\<lparr>repaid_amount := 20, loan_status := ''completed''\<rparr>)"
    by (simp add: repaid_progress_def demo_loan_def)
  have ex: "\<exists>l' \<in> set (loans (repay_all [(bob, ''B'', 1, 5), (bob, ''B'', 1, 15)] loan_db)).
       repaid_progress demo_loan l' \<and> repaid_amount l' = 20 \<and> loan_status l' = ''completed''"
    unfolding repay_all_demo using p by simp
  note repay_loan_monotone [OF pk mem dP dr r0, of "[(bob, ''B'', 1, 5), (bob, ''B'', 1, 15)]"]
  then show ?thesis using pk mem dP dr r0 ex r1 r2 r3 by - (intro conjI, assumption+)
qed

subsection \<open>No negative balances\<close>

lemma list_all_update_where_weak:
  "list_all P rows \<Longrightarrow> (\<And>r. P r \<Longrightarrow> Q r \<Longrightarrow> P (f r)) \<Longrightarrow> list_all P (update_where Q f rows)"
  by (induction rows) (simp_all add: update_where_def)














lemma applications_nonneg_cong:
  "loan_applications d' = loan_applications d \<Longrightarrow> applications_nonneg d' = applications_nonneg d"
  by (simp add: applications_nonneg_def)











lemma frame_insert_transaction:
  "insert_transaction t d = Some d' \<Longrightarrow> users d' = users d \<and> loan_applications d' = loan_applications d"
  by (drule insert_transaction_Some) simp

lemma frame_insert_bank_ledger:
  "insert_bank_ledger fk r d = Some d' \<Longrightarrow> users d' = users d \<and> loan_applications d' = loan_applications d"
  by (simp add: insert_bank_ledger_def split: if_splits) auto

lemma frame_update_bank_balance:
  "update_bank_balance aid v d = Some d' \<Longrightarrow> users d' = users d \<and> loan_applications d' = loan_applications d"
  by (simp add: update_bank_balance_def split: if_splits) auto












subsection \<open>One application is funded at most once\<close>

lemma fold_max_ge:
  fixes a :: int
  shows "a \<le> fold max ids a \<and> (\<forall>x \<in> set ids. x \<le> fold max ids a)"
proof (induction ids arbitrary: a)
  case Nil
  then show ?case by simp
next
  case (Cons i ids)
  from Cons [of "max i a"] show ?case by auto
qed

lemma next_id_fresh: "next_id ids \<notin> set ids"
proof
  assume "next_id ids \<in> set ids"
  with fold_max_ge [of 0 ids] have "next_id ids \<le> fold max ids 0" by blast
  then show False by (simp add: next_id_def)
qed

lemma apps_pay_transaction:
  "loan_applications (snd (pay_transaction a b amt c d)) = loan_applications d"
  by (simp add: pay_transaction_def Let_def insert_transaction_def split: option.splits)

lemma apps_transfer_money:
  "loan_applications (snd (transfer_money tok request d)) = loan_applications d"
  by (simp add: transfer_money_def apps_pay_transaction split: option.splits)

lemma apps_repay_loan_transaction:
  "repay_loan_transaction caller lid amt l user_data d = Some (st, d') \<Longrightarrow>
     loan_applications d' = loan_applications d"
  by (auto simp: repay_loan_transaction_def Let_def split: option.splits
        dest!: insert_transaction_Some sql_add_balance_Some)

lemma apps_repay_loan:
  "loan_applications (snd (repay_loan caller name lid amt d)) = loan_applications d"
proof (cases "find (\<lambda>l. loan_id l = lid \<and> borrower_id l = caller) (loans d)")
  case None
  then show ?thesis by (simp add: repay_loan_def)
next
  case (Some l)
  obtain user_data d0 where g: "get_user_account caller name d = (user_data, d0)"
    by (cases "get_user_account caller name d")
  have a0: "loan_applications d0 = loan_applications d"
    using get_user_account_frame(1) [of caller name d] g by simp
  show ?thesis
  proof (cases "repay_loan_transaction caller lid amt l user_data d0")
    case None
    with Some g a0 show ?thesis by (simp add: repay_loan_def Let_def)
  next
    case t: (Some r)
    obtain st d' where r: "r = (st, d')" by (cases r)
    from apps_repay_loan_transaction [OF t [unfolded r]] a0
    have "loan_applications d' = loan_applications d" by simp
    with Some g a0 t r show ?thesis by (simp add: repay_loan_def Let_def)
  qed
qed

lemma apps_bank_deposit_transaction:
  "bank_deposit_transaction aid uid amt account user_data d = Some d' \<Longrightarrow>
     loan_applications d' = loan_applications d"
  by (auto simp: bank_deposit_transaction_def Let_def split: option.splits
        dest!: frame_insert_transaction frame_insert_bank_ledger frame_update_bank_balance)

lemma apps_bank_withdraw_transaction:
  "bank_withdraw_transaction aid uid amt account user_data d = Some d' \<Longrightarrow>
     loan_applications d' = loan_applications d"
  by (auto simp: bank_withdraw_transaction_def Let_def split: option.splits
        dest!: frame_insert_transaction frame_insert_bank_ledger frame_update_bank_balance)

lemma apps_bank_transfer_transaction:
  "bank_transfer_transaction from_id to_id uid amt description fa ta d = Some d' \<Longrightarrow>
     loan_applications d' = loan_applications d"
  by (auto simp: bank_transfer_transaction_def Let_def split: option.splits
        dest!: frame_insert_transaction frame_insert_bank_ledger frame_update_bank_balance)

lemma apps_bank_deposit:
  "loan_applications (snd (bank_deposit aid uid amt d)) = loan_applications d"
proof (cases "active_account d aid")
  case None
  then show ?thesis by (simp add: bank_deposit_def)
next
  case (Some account)
  obtain user_data d0 where g: "get_user_account uid [] d = (user_data, d0)"
    by (cases "get_user_account uid [] d")
  have a0: "loan_applications d0 = loan_applications d"
    using get_user_account_frame(1) [of uid "[]" d] g by simp
  show ?thesis
  proof (cases "bank_deposit_transaction aid uid amt account user_data d0")
    case None
    with Some g a0 show ?thesis by (simp add: bank_deposit_def)
  next
    case t: (Some d')
    from apps_bank_deposit_transaction [OF t] a0
    have "loan_applications d' = loan_applications d" by simp
    with Some g a0 t show ?thesis by (simp add: bank_deposit_def)
  qed
qed

lemma apps_bank_withdraw:
  "loan_applications (snd (bank_withdraw aid uid amt d)) = loan_applications d"
proof (cases "active_account d aid")
  case None
  then show ?thesis by (simp add: bank_withdraw_def)
next
  case (Some account)
  obtain user_data d0 where g: "get_user_account uid [] d = (user_data, d0)"
    by (cases "get_user_account uid [] d")
  have a0: "loan_applications d0 = loan_applications d"
    using get_user_account_frame(1) [of uid "[]" d] g by simp
  show ?thesis
  proof (cases "bank_withdraw_transaction aid uid amt account user_data d0")
    case None
    with Some g a0 show ?thesis by (simp add: bank_withdraw_def)
  next
    case t: (Some d')
    from apps_bank_withdraw_transaction [OF t] a0
    have "loan_applications d' = loan_applications d" by simp
    with Some g a0 t show ?thesis by (simp add: bank_withdraw_def)
  qed
qed

lemma apps_bank_transfer:
  "loan_applications (snd (bank_transfer from_id to_id uid amt description d)) = loan_applications d"
proof -
  let ?accounts = "filter (\<lambda>r. account_id r \<in> set [from_id, to_id] \<and> acct_status r = ''active'' \<and>
                               list_ex (\<lambda>b. business_id b = institution_business_id r) (businesses d))
                          (bank_accounts d)"
  show ?thesis
  proof (cases "find (\<lambda>r. account_id r = from_id) ?accounts")
    case None
    then show ?thesis by (simp add: bank_transfer_def Let_def)
  next
    case fa: (Some fa)
    show ?thesis
    proof (cases "find (\<lambda>r. account_id r = to_id) ?accounts")
      case None
      with fa show ?thesis by (simp add: bank_transfer_def Let_def)
    next
      case ta: (Some ta)
      show ?thesis
      proof (cases "bank_transfer_transaction from_id to_id uid amt description fa ta d")
        case None
        with fa ta show ?thesis by (simp add: bank_transfer_def Let_def)
      next
        case (Some d')
        from apps_bank_transfer_transaction [OF Some] fa ta Some show ?thesis
          by (simp add: bank_transfer_def Let_def)
      qed
    qed
  qed
qed

lemma apps_currency_exchange:
  "loan_applications (snd (currency_exchange fmt caller name amt from_currency to_currency d))
     = loan_applications d"
proof -
  obtain user_data d0 where g: "get_user_account caller name d = (user_data, d0)"
    by (cases "get_user_account caller name d")
  have a0: "loan_applications d0 = loan_applications d"
    using get_user_account_frame(1) [of caller name d] g by simp
  then show ?thesis
    by (simp add: currency_exchange_def g Let_def insert_transaction_def split: option.splits)
qed

lemma settled_cong:
  "loan_applications d' = loan_applications d \<Longrightarrow> settled i d' = settled i d"
  by (simp add: settled_def)

lemma settled_apply_for_loan:
  assumes "settled i d"
  shows "settled i (snd (apply_for_loan today caller caller_name amt c days why d))"
proof (cases "snd (apply_for_loan today caller caller_name amt c days why d) = d")
  case True
  with assms show ?thesis by simp
next
  case False
  let ?n = "next_id (map app_id (loan_applications d))"
  from False have "\<exists>row. app_id row = ?n \<and>
      loan_applications (snd (apply_for_loan today caller caller_name amt c days why d))
        = loan_applications d @ [row]"
    by (simp add: apply_for_loan_def Let_def split: if_splits)
  then obtain row where row: "app_id row = ?n"
    "loan_applications (snd (apply_for_loan today caller caller_name amt c days why d))
        = loan_applications d @ [row]" by blast
  from assms have "i \<in> set (map app_id (loan_applications d))" by (simp add: settled_def)
  with next_id_fresh [of "map app_id (loan_applications d)"] have "?n \<noteq> i" by metis
  with assms row show ?thesis by (simp add: settled_def)
qed

lemma apps_fund_loan:
  "loan_applications (snd (fund_loan lender lender_name j d)) = loan_applications d \<or>
   loan_applications (snd (fund_loan lender lender_name j d)) =
     update_where (\<lambda>a. app_id a = j)
       (\<lambda>a. a\<lparr>app_status := ''funded'', funded_by := Some lender\<rparr>) (loan_applications d)"
proof (cases "find (\<lambda>a. app_id a = j \<and> app_status a = ''pending'') (loan_applications d)")
  case None
  then show ?thesis by (simp add: fund_loan_def)
next
  case (Some app)
  obtain user_data d0 where g: "get_user_account lender lender_name d = (user_data, d0)"
    by (cases "get_user_account lender lender_name d")
  have a0: "loan_applications d0 = loan_applications d"
    using get_user_account_frame(1) [of lender lender_name d] g by simp
  show ?thesis
  proof (cases "fund_loan_transaction lender lender_name j app user_data d0")
    case None
    with Some g a0 show ?thesis by (simp add: fund_loan_def)
  next
    case t: (Some r)
    obtain n d' where r: "r = (n, d')" by (cases r)
    from fund_loan_transaction_applications [OF t [unfolded r]] a0
    have "loan_applications d' = update_where (\<lambda>a. app_id a = j)
       (\<lambda>a. a\<lparr>app_status := ''funded'', funded_by := Some lender\<rparr>) (loan_applications d)"
      by simp
    with Some g a0 t r show ?thesis by (simp add: fund_loan_def)
  qed
qed

lemma app_ids_update_where:
  "(\<And>r. app_id (f r) = app_id r) \<Longrightarrow> map app_id (update_where P f rows) = map app_id rows"
  by (induction rows) (simp_all add: update_where_def)

lemma settled_fund_loan:
  assumes "settled i d"
  shows "settled i (snd (fund_loan lender lender_name j d))"
  using apps_fund_loan [of lender lender_name j d]
proof (elim disjE)
  assume "loan_applications (snd (fund_loan lender lender_name j d)) = loan_applications d"
  with assms show ?thesis by (simp add: settled_def)
next
  assume apps: "loan_applications (snd (fund_loan lender lender_name j d)) =
     update_where (\<lambda>a. app_id a = j)
       (\<lambda>a. a\<lparr>app_status := ''funded'', funded_by := Some lender\<rparr>) (loan_applications d)"
  from assms have "list_all (\<lambda>a. app_id a = i \<longrightarrow> app_status a \<noteq> ''pending'')
             (update_where (\<lambda>a. app_id a = j)
             (\<lambda>a. a\<lparr>app_status := ''funded'', funded_by := Some lender\<rparr>) (loan_applications d))"
    unfolding settled_def by (rule_tac list_all_update_where_weak) simp_all
  with assms apps show ?thesis by (simp add: settled_def app_ids_update_where)
qed

lemma settled_step: "settled i d \<Longrightarrow> settled i (step fmt x d)"
  by (cases x)
     (simp_all add: settled_apply_for_loan settled_fund_loan
        settled_cong [OF apps_transfer_money] settled_cong [OF apps_repay_loan]
        settled_cong [OF apps_bank_deposit] settled_cong [OF apps_bank_withdraw]
        settled_cong [OF apps_bank_transfer] settled_cong [OF apps_currency_exchange])

lemma settled_run: "settled i d \<Longrightarrow> settled i (run fmt xs d)"
  by (induction xs arbitrary: d) (simp_all add: settled_step)

lemma list_all_update_where_all:
  "(\<And>r. P r \<Longrightarrow> Q (f r)) \<Longrightarrow> (\<And>r. \<not> P r \<Longrightarrow> Q r) \<Longrightarrow> list_all Q (update_where P f rows)"
  by (induction rows) (simp_all add: update_where_def)

lemma fund_loan_settled:
  assumes "fund_loan lender lender_name i d = (Loan_Funded n, d')"
  shows "settled i d'"
proof -
  have apps: "loan_applications d' = update_where (\<lambda>a. app_id a = i)
       (\<lambda>a. a\<lparr>app_status := ''funded'', funded_by := Some lender\<rparr>) (loan_applications d)"
    by (rule fund_loan_success_applications [OF assms])
  have "find (\<lambda>a. app_id a = i \<and> app_status a = ''pending'') (loan_applications d) \<noteq> None"
  proof
    assume "find (\<lambda>a. app_id a = i \<and> app_status a = ''pending'') (loan_applications d) = None"
    with assms show False by (simp add: fund_loan_def)
  qed
  then obtain app where "find (\<lambda>a. app_id a = i \<and> app_status a = ''pending'') (loan_applications d) = Some app"
    by blast
  from find_Some_mem [OF this] have "i \<in> set (map app_id (loan_applications d))" by force
  moreover have "list_all (\<lambda>a. app_id a = i \<longrightarrow> app_status a \<noteq> ''pending'')
       (update_where (\<lambda>a. app_id a = i)
       (\<lambda>a. a\<lparr>app_status := ''funded'', funded_by := Some lender\<rparr>) (loan_applications d))"
    by (rule list_all_update_where_all) simp_all
  ultimately show ?thesis by (simp add: settled_def apps app_ids_update_where)
qed

lemma settled_fund_loan_fails:
  assumes "settled i d"
  shows "fund_loan lender lender_name i d = (Application_Not_Found_Or_Already_Funded, d)"
  using assms by (intro fund_loan_not_pending) (simp add: settled_def list_all_iff)

text \<open>
  Claim C6. When no row of \<^verbatim>\<open>loan_applications\<close> with the given id is
  \<^verbatim>\<open>pending\<close> (the application is funded, cancelled or absent), \<^verbatim>\<open>fund_loan\<close> answers
  "not found or already funded" and the database is the one before the call: no money
  moves, no loan row and no transaction row is written. A successful funding leaves the
  application \<^verbatim>\<open>funded\<close>, and after any further sequence of money operations every
  call for the same application, by any lender, fails in that way: one application is
  funded at most once.
\<close>

theorem fund_loan_idempotent_failure:
  "((\<forall>a \<in> set (loan_applications d). app_id a = application_id \<longrightarrow> app_status a \<noteq> ''pending'') \<longrightarrow>
      fund_loan lender lender_name application_id d = (Application_Not_Found_Or_Already_Funded, d)) \<and>
   (fund_loan lender lender_name application_id d = (Loan_Funded n, d') \<longrightarrow>
      (\<forall>a \<in> set (loan_applications d'). app_id a = application_id \<longrightarrow> app_status a = ''funded'') \<and>
      (\<forall>fmt ops lender2 name2.
          fund_loan lender2 name2 application_id (run fmt ops d')
            = (Application_Not_Found_Or_Already_Funded, run fmt ops d')))"
proof (intro conjI impI allI)
  assume "\<forall>a \<in> set (loan_applications d). app_id a = application_id \<longrightarrow> app_status a \<noteq> ''pending''"
  then show "fund_loan lender lender_name application_id d = (Application_Not_Found_Or_Already_Funded, d)"
    by (rule fund_loan_not_pending)
next
  assume ok: "fund_loan lender lender_name application_id d = (Loan_Funded n, d')"
  have apps: "loan_applications d' =
           update_where (\<lambda>a. app_id a = application_id)
             (\<lambda>a. a\<lparr>app_status := ''funded'', funded_by := Some lender\<rparr>) (loan_applications d)"
    by (rule fund_loan_success_applications [OF ok])
  have "list_all (\<lambda>a. app_id a = application_id \<longrightarrow> app_status a = ''funded'') (loan_applications d')"
    unfolding apps by (rule list_all_update_where_all) simp_all
  then show "\<forall>a \<in> set (loan_applications d'). app_id a = application_id \<longrightarrow> app_status a = ''funded''"
    by (simp add: list_all_iff)
next
  fix fmt ops lender2 name2
  assume ok: "fund_loan lender lender_name application_id d = (Loan_Funded n, d')"
  from fund_loan_settled [OF ok] have "settled application_id (run fmt ops d')"
    by (rule settled_run)
  then show "fund_loan lender2 name2 application_id (run fmt ops d')
            = (Application_Not_Found_Or_Already_Funded, run fmt ops d')"
    by (rule settled_fund_loan_fails)
qed

text \<open>
  Application 2 of the example is funded already; application 1 is pending and Alice
  funds it.
\<close>

theorem fund_loan_idempotent_failure_witness:
  "map app_status (filter (\<lambda>a. app_id a = 2) (loan_applications loan_db)) = [''funded''] \<and>
   fund_loan alice ''A'' 2 loan_db = (Application_Not_Found_Or_Already_Funded, loan_db) \<and>
   (\<exists>d'. fund_loan alice ''A'' 1 loan_db = (Loan_Funded 2, d') \<and>
         fund_loan carol ''C'' 1 d' = (Application_Not_Found_Or_Already_Funded, d') \<and>
         fund_loan alice ''A'' 1 (run demo_fmt [Loan_Repayment bob ''B'' 2 20] d')
           = (Application_Not_Found_Or_Already_Funded, run demo_fmt [Loan_Repayment bob ''B'' 2 20] d'))"
proof -
  have h: "\<forall>a \<in> set (loan_applications loan_db). app_id a = 2 \<longrightarrow> app_status a \<noteq> ''pending''"
    by (simp add: loan_db_def)
  obtain d' where run: "fund_loan alice ''A'' 1 loan_db = (Loan_Funded 2, d')"
    using fund_loan_demo by (cases "fund_loan alice ''A'' 1 loan_db") simp
  have s: "map app_status (filter (\<lambda>a. app_id a = 2) (loan_applications loan_db)) = [''funded'']"
    by (simp add: loan_db_def)
  note a = fund_loan_idempotent_failure [of loan_db 2 alice "''A''", THEN conjunct1, THEN mp, OF h]
  note b = fund_loan_idempotent_failure [of loan_db 1 alice "''A''" 2 d', THEN conjunct2, THEN mp,
             OF run, THEN conjunct2]
  note c = b [THEN spec [where x = demo_fmt], THEN spec [where x = "[]"],
              THEN spec [where x = carol], THEN spec [where x = "''C''"], simplified]
  note e = b [THEN spec [where x = demo_fmt], THEN spec [where x = "[Loan_Repayment bob ''B'' 2 20]"],
              THEN spec [where x = alice], THEN spec [where x = "''A''"]]
  from run c e have "\<exists>d'. fund_loan alice ''A'' 1 loan_db = (Loan_Funded 2, d') \<and>
         fund_loan carol ''C'' 1 d' = (Application_Not_Found_Or_Already_Funded, d') \<and>
         fund_loan alice ''A'' 1 (run demo_fmt [Loan_Repayment bob ''B'' 2 20] d')
           = (Application_Not_Found_Or_Already_Funded, run demo_fmt [Loan_Repayment bob ''B'' 2 20] d')"
    by (intro exI [of _ d'] conjI)
  with s a show ?thesis by (intro conjI)
qed

end
